theory Spec2Isabelle
  imports Complex_Main "HOL-Library.Sublist" "HOL-Library.AList"
begin

section \<open>Python values, exceptions and data frames\<close>

text \<open>
  The program is Python over pandas. Conventions of the embedding:
  \<^item> a Python \<open>float\<close> is the \<^typ>\<open>real\<close> number it denotes. The functions are given
    with exact arithmetic first; the weighted index is given a second time with every
    operation rounded to an IEEE double (section \<open>The index in IEEE doubles\<close>);
  \<^item> a Python \<open>int\<close> is an \<^typ>\<open>int\<close>;
  \<^item> a \<open>datetime\<close> is the number of microseconds since \<open>datetime.min\<close>
    (0001-01-01 00:00:00), an \<^typ>\<open>int\<close>;
  \<^item> a \<open>str\<close> is a \<^typ>\<open>string\<close>;
  \<^item> a function that may raise returns \<open>exn + 'a\<close>, with \<open>Inl\<close> the exception; every
    \<open>except Exception\<close> of the source is a \<open>case\<close> on that sum. The exceptions are
    those derived from \<open>Exception\<close>; what \<open>except Exception\<close> lets through
    (\<open>KeyboardInterrupt\<close>, \<open>SystemExit\<close>) is not modelled.
\<close>

datatype exn =
  KeyError | TypeError | AttributeError | UnboundLocalError | OverflowError
  | ValueError | ConnectionError | JSONDecodeError | RuntimeError

datatype cell = StrC string | FloatC real | IntC int | TimeC int

text \<open>A Python dict with string keys, in insertion order.\<close>

type_synonym dict = "(string \<times> cell) list"

text \<open>
  A pandas DataFrame, row by row: the column index and one dict per row. In a frame built
  by this program every row has a cell for every column (all the dicts of one frame are
  written with the same keys), so a missing cell (pandas' NaN) never arises; where a
  definition below meets one, \<open>map_of r c = None\<close>, it says what the model does.
\<close>

record frame =
  columns :: "string list"
  rows :: "dict list"

text \<open>\<open>Series.unique()\<close>: the distinct values in order of first appearance.\<close>

definition unique :: "'a list \<Rightarrow> 'a list" where
  "unique xs = rev (remdups (rev xs))"

text \<open>\<open>pd.DataFrame(list_of_dicts)\<close>; \<open>pd.DataFrame()\<close> is \<open>DataFrame []\<close>.\<close>

definition DataFrame :: "dict list \<Rightarrow> frame" where
  "DataFrame data = \<lparr>columns = unique (concat (map (map fst) data)), rows = data\<rparr>"

text \<open>\<open>df.empty\<close>: one of the two axes has length 0.\<close>

definition empty_df :: "frame \<Rightarrow> bool" where
  "empty_df df \<longleftrightarrow> rows df = [] \<or> columns df = []"

text \<open>\<open>df[c]\<close>: the column as a list of cells, KeyError when there is no such column.\<close>

definition getitem :: "frame \<Rightarrow> string \<Rightarrow> exn + cell option list" where
  "getitem df c =
     (if c \<in> set (columns df) then Inr (map (\<lambda>r. map_of r c) (rows df)) else Inl KeyError)"

text \<open>\<open>df[df[c] == v]\<close>: the rows whose cell in column \<open>c\<close> is \<open>v\<close>.\<close>

definition select_eq :: "frame \<Rightarrow> string \<Rightarrow> cell option \<Rightarrow> frame" where
  "select_eq df c v = df\<lparr>rows := filter (\<lambda>r. map_of r c = v) (rows df)\<rparr>"

text \<open>
  The values of a float column. A cell that is not a float is reported as TypeError:
  what pandas does on a score column holding other values (skipping NaN, object dtype)
  is not modelled.
\<close>

fun floats :: "cell option list \<Rightarrow> exn + real list" where
  "floats [] = Inr []"
| "floats (Some (FloatC x) # cs) =
     (case floats cs of Inl e \<Rightarrow> Inl e | Inr xs \<Rightarrow> Inr (x # xs))"
| "floats (_ # cs) = Inl TypeError"

text \<open>\<open>Series.mean()\<close> of a non-empty float series.\<close>

definition mean :: "real list \<Rightarrow> real" where
  "mean xs = sum_list xs / real (length xs)"

definition column_mean :: "frame \<Rightarrow> string \<Rightarrow> exn + real" where
  "column_mean df c =
     (case getitem df c of
        Inl e \<Rightarrow> Inl e
      | Inr col \<Rightarrow> (case floats col of Inl e \<Rightarrow> Inl e | Inr xs \<Rightarrow> Inr (mean xs)))"

section \<open>SentimentAnalyzer.calculate_weighted_sentiment\<close>

text \<open>
  The first loop (lines 65-68): for each source of \<open>df['source'].unique()\<close>, the net
  sentiment of the rows of that source. The dict \<open>source_sentiments\<close> is an association
  list in insertion order; its keys are distinct because they come from \<open>unique\<close>.
\<close>

fun source_sentiments :: "frame \<Rightarrow> cell option list \<Rightarrow> exn + (cell option \<times> real) list" where
  "source_sentiments df [] = Inr []"
| "source_sentiments df (source # rest) =
     (let source_df = select_eq df ''source'' source in
      case column_mean source_df ''positive'' of
        Inl e \<Rightarrow> Inl e
      | Inr p \<Rightarrow>
          (case column_mean source_df ''negative'' of
             Inl e \<Rightarrow> Inl e
           | Inr n \<Rightarrow>
               (case source_sentiments df rest of
                  Inl e \<Rightarrow> Inl e
                | Inr ss \<Rightarrow> Inr ((source, p - n) # ss))))"

definition weights :: "(cell option \<times> real) list" where
  "weights = [(Some (StrC ''Financial News''), 7 / 10), (Some (StrC ''WallStreetBets''), 3 / 10)]"

text \<open>\<open>weights.get(source, default)\<close>.\<close>

definition weights_get :: "cell option \<Rightarrow> real \<Rightarrow> real" where
  "weights_get source d = (case map_of weights source of Some w \<Rightarrow> w | None \<Rightarrow> d)"

text \<open>The second loop (lines 77-83), on the pair \<open>(weighted_sum, total_weight)\<close>.\<close>

fun weighted_loop :: "(cell option \<times> real) list \<Rightarrow> real \<times> real \<Rightarrow> real \<times> real" where
  "weighted_loop [] acc = acc"
| "weighted_loop ((source, sentiment) # rest) (weighted_sum, total_weight) =
     (let weight = weights_get source (1 / 2)
      in weighted_loop rest (weighted_sum + sentiment * weight, total_weight + weight))"

definition calculate_weighted_sentiment :: "frame \<Rightarrow> exn + real" where
  "calculate_weighted_sentiment df =
     (if empty_df df then Inr 0
      else
        case getitem df ''source'' of
          Inl e \<Rightarrow> Inl e
        | Inr source_col \<Rightarrow>
            (case source_sentiments df (unique source_col) of
               Inl e \<Rightarrow> Inl e
             | Inr ss \<Rightarrow>
                 (case weighted_loop ss (0, 0) of
                    (weighted_sum, total_weight) \<Rightarrow>
                      Inr (if total_weight > 0 then weighted_sum / total_weight else 0))))"

subsection \<open>The index as the specification words it\<close>

text \<open>
  A scored collection: the frame has the columns \<open>source\<close>, \<open>positive\<close> and \<open>negative\<close>,
  and every record carries a source tag and two float scores.
\<close>

definition scored :: "frame \<Rightarrow> bool" where
  "scored df \<longleftrightarrow>
     ''source'' \<in> set (columns df) \<and> ''positive'' \<in> set (columns df)
     \<and> ''negative'' \<in> set (columns df)
     \<and> list_all (\<lambda>r. (case map_of r ''source'' of Some (StrC s) \<Rightarrow> True | _ \<Rightarrow> False)
                    \<and> (case map_of r ''positive'' of Some (FloatC p) \<Rightarrow> True | _ \<Rightarrow> False)
                    \<and> (case map_of r ''negative'' of Some (FloatC n) \<Rightarrow> True | _ \<Rightarrow> False))
          (rows df)"

text \<open>The positive and negative scores of every record lie in \<open>[0, 1]\<close>.\<close>

definition unit_scores :: "frame \<Rightarrow> bool" where
  "unit_scores df \<longleftrightarrow>
     list_all (\<lambda>r. (case map_of r ''positive'' of Some (FloatC p) \<Rightarrow> 0 \<le> p \<and> p \<le> 1 | _ \<Rightarrow> False)
                  \<and> (case map_of r ''negative'' of Some (FloatC n) \<Rightarrow> 0 \<le> n \<and> n \<le> 1 | _ \<Rightarrow> False))
       (rows df)"

text \<open>The float values of column \<open>c\<close> over the group of source \<open>s\<close>.\<close>

definition spec_group_values :: "frame \<Rightarrow> cell option \<Rightarrow> string \<Rightarrow> real list" where
  "spec_group_values df s c =
     concat (map (\<lambda>r. case map_of r c of Some (FloatC x) \<Rightarrow> [x] | _ \<Rightarrow> [])
               (filter (\<lambda>r. map_of r ''source'' = s) (rows df)))"

text \<open>\<open>net_s = mean(positive) - mean(negative)\<close> over group \<open>s\<close>.\<close>

definition spec_net :: "frame \<Rightarrow> cell option \<Rightarrow> real" where
  "spec_net df s = mean (spec_group_values df s ''positive'') - mean (spec_group_values df s ''negative'')"

text \<open>The weight table of the specification: news 0.7, social 0.3, any other source 0.5.\<close>

definition spec_weight :: "cell option \<Rightarrow> real" where
  "spec_weight s =
     (if s = Some (StrC ''Financial News'') then 7 / 10
      else if s = Some (StrC ''WallStreetBets'') then 3 / 10
      else 1 / 2)"

text \<open>The source groups present in the data.\<close>

definition spec_sources :: "frame \<Rightarrow> cell option set" where
  "spec_sources df = set (map (\<lambda>r. map_of r ''source'') (rows df))"

text \<open>
  Overall index: the weighted sum of the nets over the groups present, divided by the sum
  of their weights; 0 when no group is present.
\<close>

definition spec_index :: "frame \<Rightarrow> real" where
  "spec_index df =
     (if spec_sources df = {} then 0
      else (\<Sum>s\<in>spec_sources df. spec_net df s * spec_weight s) / (\<Sum>s\<in>spec_sources df. spec_weight s))"


section \<open>The index in IEEE doubles\<close>

text \<open>
  The net sentiments and the index are Python floats, that is IEEE binary64 numbers, and
  each arithmetic operation of the source rounds its exact result to the nearest double,
  ties to the even mantissa. \<open>calculate_weighted_sentiment\<close> above is the function with
  the rounding left out; \<open>calculate_weighted_sentiment_f64\<close> below is the same function
  with every operation rounded. A double is modelled by the real number it denotes.
\<close>

text \<open>The nearest integer, a tie going to the even one.\<close>

definition round_half_even :: "real \<Rightarrow> int" where
  "round_half_even x =
     (let f = \<lfloor>x\<rfloor>; d = x - of_int f
      in if d < 1 / 2 then f else if 1 / 2 < d then f + 1 else if even f then f else f + 1)"

text \<open>
  The largest exponent \<open>e\<close> with \<open>- 1074 \<le> e < n - 1074\<close> and \<open>2 ^ e \<le> x\<close>, or
  \<open>- 1075\<close> when there is none; \<open>binade\<close> searches the exponents of the doubles, from
  \<open>- 1074\<close> to \<open>1023\<close>.
\<close>

fun exponent_below :: "nat \<Rightarrow> real \<Rightarrow> int" where
  "exponent_below 0 x = - 1075"
| "exponent_below (Suc n) x =
     (if 2 powi (int n - 1074) \<le> x then int n - 1074 else exponent_below n x)"

definition binade :: "real \<Rightarrow> int" where
  "binade x = exponent_below 2098 \<bar>x\<bar>"

text \<open>
  Rounding to the nearest double: the doubles of the binade of exponent \<open>e\<close> are the
  multiples of \<open>2 ^ (e - 52)\<close>, and below \<open>2 ^ (- 1022)\<close> (the subnormal range) the
  multiples of \<open>2 ^ (- 1074)\<close>. Overflow is not modelled: a value beyond the largest
  double is rounded in the last binade instead of becoming infinite.
\<close>

definition double :: "real \<Rightarrow> real" where
  "double x =
     (let q = 2 powi (max (binade x) (- 1022) - 52)
      in of_int (round_half_even (x / q)) * q)"

text \<open>
  \<open>Series.mean()\<close> in doubles: the sum from left to right, then the division by the
  count. (numpy adds up to seven values in this order; the pairwise order it uses on
  longer series is not modelled.)
\<close>

definition sum64 :: "real list \<Rightarrow> real" where
  "sum64 xs = foldl (\<lambda>acc x. double (acc + x)) 0 xs"

definition mean64 :: "real list \<Rightarrow> real" where
  "mean64 xs = double (sum64 xs / real (length xs))"

definition column_mean64 :: "frame \<Rightarrow> string \<Rightarrow> exn + real" where
  "column_mean64 df c =
     (case getitem df c of
        Inl e \<Rightarrow> Inl e
      | Inr col \<Rightarrow> (case floats col of Inl e \<Rightarrow> Inl e | Inr xs \<Rightarrow> Inr (mean64 xs)))"

text \<open>The first loop (lines 65-68), the subtraction rounded.\<close>

fun source_sentiments_f64 :: "frame \<Rightarrow> cell option list \<Rightarrow> exn + (cell option \<times> real) list" where
  "source_sentiments_f64 df [] = Inr []"
| "source_sentiments_f64 df (source # rest) =
     (let source_df = select_eq df ''source'' source in
      case column_mean64 source_df ''positive'' of
        Inl e \<Rightarrow> Inl e
      | Inr p \<Rightarrow>
          (case column_mean64 source_df ''negative'' of
             Inl e \<Rightarrow> Inl e
           | Inr n \<Rightarrow>
               (case source_sentiments_f64 df rest of
                  Inl e \<Rightarrow> Inl e
                | Inr ss \<Rightarrow> Inr ((source, double (p - n)) # ss))))"

text \<open>
  The second loop (lines 77-83): the weight is the double of the literal, and the
  product and the two additions are rounded.
\<close>

fun weighted_loop_f64 :: "(cell option \<times> real) list \<Rightarrow> real \<times> real \<Rightarrow> real \<times> real" where
  "weighted_loop_f64 [] acc = acc"
| "weighted_loop_f64 ((source, sentiment) # rest) (weighted_sum, total_weight) =
     (let weight = double (weights_get source (1 / 2))
      in weighted_loop_f64 rest
           (double (weighted_sum + double (sentiment * weight)), double (total_weight + weight)))"

definition calculate_weighted_sentiment_f64 :: "frame \<Rightarrow> exn + real" where
  "calculate_weighted_sentiment_f64 df =
     (if empty_df df then Inr 0
      else
        case getitem df ''source'' of
          Inl e \<Rightarrow> Inl e
        | Inr source_col \<Rightarrow>
            (case source_sentiments_f64 df (unique source_col) of
               Inl e \<Rightarrow> Inl e
             | Inr ss \<Rightarrow>
                 (case weighted_loop_f64 ss (0, 0) of
                    (weighted_sum, total_weight) \<Rightarrow>
                      Inr (if total_weight > 0 then double (weighted_sum / total_weight)
                           else 0))))"

text \<open>\<open>net_s\<close> as the program holds it: the two means and their difference in doubles.\<close>

definition spec_net64 :: "frame \<Rightarrow> cell option \<Rightarrow> real" where
  "spec_net64 df s =
     double (mean64 (spec_group_values df s ''positive'')
             - mean64 (spec_group_values df s ''negative''))"

section \<open>Dates and strings\<close>

text \<open>
  \<open>datetime.max\<close> is 9999-12-31 23:59:59.999999, that is 3652059 days less one
  microsecond after \<open>datetime.min\<close>.
\<close>

definition datetime_max :: int where
  "datetime_max = 315537897599999999"

text \<open>
  \<open>timedelta(days=d)\<close>, in microseconds. Python raises OverflowError when the magnitude
  of \<open>d\<close> exceeds 999999999.
\<close>

definition timedelta_days :: "int \<Rightarrow> exn + int" where
  "timedelta_days d = (if \<bar>d\<bar> > 999999999 then Inl OverflowError else Inr (d * 86400000000))"

text \<open>\<open>t - delta\<close> on a datetime: OverflowError when the result leaves the datetime range.\<close>

definition datetime_sub :: "int \<Rightarrow> int \<Rightarrow> exn + int" where
  "datetime_sub t delta =
     (let r = t - delta in if r < 0 \<or> datetime_max < r then Inl OverflowError else Inr r)"

text \<open>
  The two lines every fetcher starts its window with:
  \<^verbatim>\<open>end_date = datetime.now(); start_date = end_date - timedelta(days=days)\<close>.
  The result is \<open>(start_date, end_date)\<close>.
\<close>

definition date_range :: "int \<Rightarrow> int \<Rightarrow> exn + (int \<times> int)" where
  "date_range now days =
     (case timedelta_days days of
        Inl e \<Rightarrow> Inl e
      | Inr delta \<Rightarrow>
          (case datetime_sub now delta of
             Inl e \<Rightarrow> Inl e
           | Inr start_date \<Rightarrow> Inr (start_date, now)))"

text \<open>
  \<open>datetime.fromtimestamp(t)\<close>. The embedding gives a post's \<open>created_utc\<close> on the
  datetime axis already (the shift from the Unix epoch and the change of unit are
  monotone and left out); Python raises when the instant is outside the datetime range.
\<close>

definition fromtimestamp :: "int \<Rightarrow> exn + int" where
  "fromtimestamp t = (if 0 \<le> t \<and> t \<le> datetime_max then Inr t else Inl ValueError)"

text \<open>
  \<open>str.upper()\<close> on the ASCII letters; every other character is left as it is (what
  Python does to letters beyond ASCII is not modelled).
\<close>

definition upper_char :: "char \<Rightarrow> char" where
  "upper_char c =
     (case map_of (zip ''abcdefghijklmnopqrstuvwxyz'' ''ABCDEFGHIJKLMNOPQRSTUVWXYZ'') c of
        Some u \<Rightarrow> u
      | None \<Rightarrow> c)"

definition upper :: "string \<Rightarrow> string" where
  "upper s = map upper_char s"

text \<open>Python's \<open>sub in s\<close> on strings: \<open>sub\<close> occurs in \<open>s\<close> as a contiguous run.\<close>

fun is_in :: "string \<Rightarrow> string \<Rightarrow> bool" where
  "is_in sub [] = (sub = [])"
| "is_in sub (c # cs) = (prefix sub (c # cs) \<or> is_in sub cs)"

section \<open>More of pandas\<close>

text \<open>
  \<open>df[cols]\<close> with a list of column names: KeyError when one of them is not a column.
\<close>

definition project :: "frame \<Rightarrow> string list \<Rightarrow> exn + frame" where
  "project df cols =
     (if set cols \<subseteq> set (columns df)
      then Inr \<lparr>columns = cols, rows = map (filter (\<lambda>kv. fst kv \<in> set cols)) (rows df)\<rparr>
      else Inl KeyError)"

text \<open>\<open>pd.concat(dfs, ignore_index=True)\<close>: the rows one after the other, the union of the columns.\<close>

definition pd_concat :: "frame list \<Rightarrow> frame" where
  "pd_concat dfs = \<lparr>columns = unique (concat (map columns dfs)), rows = concat (map rows dfs)\<rparr>"

text \<open>\<open>pd.concat([a, b], axis=1)\<close> of two frames with the same default index.\<close>

definition concat_axis1 :: "frame \<Rightarrow> frame \<Rightarrow> frame" where
  "concat_axis1 a b =
     \<lparr>columns = columns a @ columns b, rows = map (\<lambda>(r, s). r @ s) (zip (rows a) (rows b))\<rparr>"

text \<open>\<open>df[c] = v\<close> with a scalar: the column is added, or overwritten, in every row.\<close>

definition set_column :: "frame \<Rightarrow> string \<Rightarrow> cell \<Rightarrow> frame" where
  "set_column df c v =
     \<lparr>columns = (if c \<in> set (columns df) then columns df else columns df @ [c]),
      rows = map (AList.update c v) (rows df)\<rparr>"

text \<open>\<open>df.to_dict('records')\<close>: one dict per row, keyed by the columns.\<close>

definition to_dict_records :: "frame \<Rightarrow> dict list" where
  "to_dict_records df =
     map (\<lambda>r. concat (map (\<lambda>c. case map_of r c of Some v \<Rightarrow> [(c, v)] | None \<Rightarrow> []) (columns df)))
       (rows df)"

section \<open>SentimentAnalyzer.analyze_dataframe\<close>

text \<open>
  The classifier is external: \<open>analyze_text\<close> maps a text to the scores
  \<open>(negative, neutral, positive)\<close>, or raises.
\<close>

type_synonym analyzer = "string \<Rightarrow> exn + (real \<times> real \<times> real)"

fun analyze_texts :: "analyzer \<Rightarrow> cell option list \<Rightarrow> exn + dict list" where
  "analyze_texts analyze_text [] = Inr []"
| "analyze_texts analyze_text (t # ts) =
     (case (case t of Some (StrC s) \<Rightarrow> analyze_text s | _ \<Rightarrow> Inl TypeError) of
        Inl e \<Rightarrow> Inl e
      | Inr (neg, neu, pos) \<Rightarrow>
          (case analyze_texts analyze_text ts of
             Inl e \<Rightarrow> Inl e
           | Inr results \<Rightarrow>
               Inr ([(''negative'', FloatC neg), (''neutral'', FloatC neu),
                     (''positive'', FloatC pos)] # results)))"

definition analyze_dataframe :: "analyzer \<Rightarrow> frame \<Rightarrow> exn + frame" where
  "analyze_dataframe analyze_text df =
     (case getitem df ''text'' of
        Inl e \<Rightarrow> Inl e
      | Inr texts \<Rightarrow>
          (case analyze_texts analyze_text texts of
             Inl e \<Rightarrow> Inl e
           | Inr results \<Rightarrow> Inr (concat_axis1 df (DataFrame results))))"

section \<open>WSBSentimentFetcher\<close>

text \<open>
  A Reddit submission as the fetcher reads it. \<open>title = None\<close> makes \<open>post.title.upper()\<close>
  raise AttributeError; \<open>selftext\<close> may be None or empty.
\<close>

record post =
  created_utc :: int
  title :: "string option"
  selftext :: "string option"
  score :: int
  num_comments :: int
  permalink :: string

text \<open>
  A lazy listing of the Reddit client: the posts it yields, and the exception that ends
  the iteration if there is one. The \<open>limit=100\<close> of the calls is a request to the
  client; the fetcher itself does not count what it is given.
\<close>

type_synonym listing = "post list \<times> exn option"

text \<open>
  The subreddit handle: \<open>search query time_filter\<close>, and the three listings of
  \<open>_fetch_from_listings\<close> (\<open>Inl\<close> when the call itself raises).
\<close>

record subreddit =
  search :: "string \<Rightarrow> string \<Rightarrow> listing"
  hot_listing :: "exn + listing"
  new_listing :: "exn + listing"
  top_listing :: "exn + listing"

text \<open>
  The fetcher object and its clock. \<open>reddit = None\<close> is \<open>self.reddit is None\<close>, the state
  \<open>__init__\<close> leaves when \<open>praw.Reddit\<close> raised; \<open>Some (Inl e)\<close> is a client whose
  \<open>subreddit('wallstreetbets')\<close> raises \<open>e\<close>.
\<close>

record wsb_fetcher =
  reddit :: "(exn + subreddit) option"
  clock :: int

definition str_of :: "string option \<Rightarrow> string" where
  "str_of s = (case s of None \<Rightarrow> ''None'' | Some t \<Rightarrow> t)"

text \<open>
  The body of the inner \<open>try\<close> (lines 69-87): \<open>Inr (Some d)\<close> when the dict \<open>d\<close> is
  appended, \<open>Inr None\<close> when the post is filtered out, \<open>Inl e\<close> when it raises.
\<close>

definition process_post :: "string \<Rightarrow> int \<Rightarrow> int \<Rightarrow> post \<Rightarrow> exn + dict option" where
  "process_post ticker start_date end_date p =
     (case fromtimestamp (created_utc p) of
        Inl e \<Rightarrow> Inl e
      | Inr post_date \<Rightarrow>
          if start_date \<le> post_date \<and> post_date \<le> end_date then
            (case title p of
               None \<Rightarrow> Inl AttributeError
             | Some t \<Rightarrow>
                 let title_u = upper t;
                     selftext_u = (case selftext p of
                                     None \<Rightarrow> []
                                   | Some b \<Rightarrow> if b \<noteq> [] then upper b else [])
                 in if is_in (upper ticker) title_u \<or> is_in (upper ticker) selftext_u then
                      Inr (Some [(''text'', StrC (t @ '' '' @ str_of (selftext p))),
                                 (''timestamp'', TimeC post_date),
                                 (''score'', IntC (score p)),
                                 (''num_comments'', IntC (num_comments p)),
                                 (''url'', StrC (''https://www.reddit.com'' @ permalink p)),
                                 (''source'', StrC ''WallStreetBets''),
                                 (''ticker'', StrC ticker)])
                    else Inr None)
          else Inr None)"

text \<open>\<open>for post in results\<close>, with \<open>except Exception: continue\<close> around each post.\<close>

fun collect_posts :: "string \<Rightarrow> int \<Rightarrow> int \<Rightarrow> post list \<Rightarrow> dict list \<Rightarrow> dict list" where
  "collect_posts ticker start_date end_date [] posts = posts"
| "collect_posts ticker start_date end_date (p # ps) posts =
     (case process_post ticker start_date end_date p of
        Inr (Some d) \<Rightarrow> collect_posts ticker start_date end_date ps (posts @ [d])
      | _ \<Rightarrow> collect_posts ticker start_date end_date ps posts)"

text \<open>
  \<open>for time_filter in time_filters\<close> (lines 63-98). A listing that raises while it is
  iterated keeps what was appended and goes on to the next filter, past the test on
  \<open>len(posts)\<close>.
\<close>

fun search_loop ::
  "subreddit \<Rightarrow> string \<Rightarrow> int \<Rightarrow> int \<Rightarrow> string list \<Rightarrow> dict list \<Rightarrow> dict list" where
  "search_loop sub ticker start_date end_date [] posts = posts"
| "search_loop sub ticker start_date end_date (time_filter # rest) posts =
     (case search sub ticker time_filter of
        (results, fault) \<Rightarrow>
          let posts' = collect_posts ticker start_date end_date results posts
          in case fault of
               Some e \<Rightarrow> search_loop sub ticker start_date end_date rest posts'
             | None \<Rightarrow>
                 if length posts' \<ge> 50 then posts'
                 else search_loop sub ticker start_date end_date rest posts')"

fun listing_loop :: "string \<Rightarrow> int \<Rightarrow> int \<Rightarrow> listing list \<Rightarrow> dict list \<Rightarrow> dict list" where
  "listing_loop ticker start_date end_date [] posts = posts"
| "listing_loop ticker start_date end_date ((results, fault) # rest) posts =
     listing_loop ticker start_date end_date rest
       (collect_posts ticker start_date end_date results posts)"

text \<open>
  \<open>_fetch_from_listings\<close>: the list of listings is built first, outside any \<open>try\<close> of
  this method; the returned list is the caller's \<open>posts\<close> after the appends.
\<close>

definition fetch_from_listings ::
  "subreddit \<Rightarrow> string \<Rightarrow> int \<Rightarrow> int \<Rightarrow> dict list \<Rightarrow> exn + dict list" where
  "fetch_from_listings sub ticker start_date end_date posts =
     (case hot_listing sub of
        Inl e \<Rightarrow> Inl e
      | Inr hot_posts \<Rightarrow>
          (case new_listing sub of
             Inl e \<Rightarrow> Inl e
           | Inr new_posts \<Rightarrow>
               (case top_listing sub of
                  Inl e \<Rightarrow> Inl e
                | Inr top_posts \<Rightarrow>
                    Inr (listing_loop ticker start_date end_date
                           [hot_posts, new_posts, top_posts] posts))))"

text \<open>The body of the outer \<open>try\<close> of \<open>fetch_wsb_posts\<close> (lines 44-108).\<close>

definition wsb_try :: "wsb_fetcher \<Rightarrow> exn + subreddit \<Rightarrow> string \<Rightarrow> int \<Rightarrow> exn + frame" where
  "wsb_try self client ticker days =
     (case date_range (clock self) days of
        Inl e \<Rightarrow> Inl e
      | Inr (start_date, end_date) \<Rightarrow>
          (case client of
             Inl e \<Rightarrow> Inr (DataFrame [])
           | Inr sub \<Rightarrow>
               let posts = search_loop sub ticker start_date end_date
                             [''day'', ''week'', ''month''] []
               in if posts = [] then
                    (case fetch_from_listings sub ticker start_date end_date posts of
                       Inl e \<Rightarrow> Inl e
                     | Inr posts' \<Rightarrow> Inr (DataFrame posts'))
                  else Inr (DataFrame posts)))"

definition fetch_wsb_posts :: "wsb_fetcher \<Rightarrow> string \<Rightarrow> int \<Rightarrow> exn + frame" where
  "fetch_wsb_posts self ticker days =
     (case reddit self of
        None \<Rightarrow> Inr (DataFrame [])
      | Some client \<Rightarrow>
          (case wsb_try self client ticker days of
             Inl e \<Rightarrow> Inr (DataFrame [])
           | Inr df \<Rightarrow> Inr df))"


section \<open>InstitutionalSentimentFetcher\<close>

text \<open>
  An HTTP response: the status code and what \<open>response.json()\<close> gives, or raises.
\<close>

record 'a response =
  status_code :: int
  response_json :: "exn + 'a"

text \<open>
  An item of the Alpha Vantage feed. \<open>time_published = None\<close> stands for an item whose
  \<open>item["time_published"]\<close> is missing or does not parse: processing it raises. The
  other fields are what \<open>item.get(key, default)\<close> returns.
\<close>

record feed_item =
  time_published :: "int option"
  item_title :: string
  item_summary :: string
  item_source :: string
  item_url :: string

text \<open>
  An article of the News API. \<open>publishedAt\<close> is what \<open>pd.to_datetime\<close> makes of the
  field, \<open>Inl\<close> when it raises.
\<close>

record article =
  article_title :: string
  description :: string
  publishedAt :: "exn + int"
  source_name :: string
  article_url :: string

text \<open>
  The query parameters of the News API request; \<open>from_day\<close> and \<open>to_day\<close> are the
  dates \<open>strftime('%Y-%m-%d')\<close> prints, as day numbers.
\<close>

record news_params =
  query :: string
  from_day :: int
  to_day :: int
  apiKey :: string

text \<open>
  The fetcher object with the world it talks to: the two keys read from the environment
  (\<open>None\<close> when the variable is not set), the two HTTP endpoints, the clock and the
  classifier. The Alpha Vantage payload is the \<open>feed\<close> entry of the JSON object,
  \<open>None\<close> when the object has no such key.
\<close>

record institutional_fetcher =
  alpha_vantage_key :: "string option"
  news_api_key :: "string option"
  alpha_get :: "string \<Rightarrow> exn + (feed_item list option) response"
  news_get :: "news_params \<Rightarrow> exn + (article list) response"
  now :: int
  analyze_text :: analyzer

text \<open>The loop over \<open>data["feed"]\<close> (lines 71-89), with \<open>except Exception: continue\<close>.\<close>

fun process_articles :: "int \<Rightarrow> int \<Rightarrow> feed_item list \<Rightarrow> dict list \<Rightarrow> dict list" where
  "process_articles start_date end_date [] articles = articles"
| "process_articles start_date end_date (item # feed) articles =
     (case time_published item of
        None \<Rightarrow> process_articles start_date end_date feed articles
      | Some timestamp \<Rightarrow>
          if start_date \<le> timestamp \<and> timestamp \<le> end_date then
            process_articles start_date end_date feed
              (articles @ [[(''text'', StrC (item_title item @ '' '' @ item_summary item)),
                            (''timestamp'', TimeC timestamp),
                            (''source'', StrC ''Financial News''),
                            (''publisher'', StrC (item_source item)),
                            (''url'', StrC (item_url item))]])
          else process_articles start_date end_date feed articles)"

text \<open>
  The body of the \<open>try\<close> of \<open>fetch_alpha_vantage_news\<close> (lines 51-92). Line 54 evaluates
  \<open>data.keys()\<close> when the status is 200, and \<open>data\<close> is a local variable that is only
  assigned on line 63: UnboundLocalError.
\<close>

definition alpha_try :: "institutional_fetcher \<Rightarrow> string \<Rightarrow> int \<Rightarrow> int \<Rightarrow> exn + frame" where
  "alpha_try self ticker start_date end_date =
     (case alpha_get self
             (''https://www.alphavantage.co/query?function=NEWS_SENTIMENT&tickers='' @ ticker
              @ ''&apikey='' @ str_of (alpha_vantage_key self)) of
        Inl e \<Rightarrow> Inl e
      | Inr response \<Rightarrow>
          if status_code response = 200 then Inl UnboundLocalError
          else if status_code response \<noteq> 200 then Inr (DataFrame [])
          else
            (case response_json response of
               Inl e \<Rightarrow> Inl e
             | Inr data \<Rightarrow>
                 (case data of
                    None \<Rightarrow> Inr (DataFrame [])
                  | Some feed \<Rightarrow> Inr (DataFrame (process_articles start_date end_date feed [])))))"

text \<open>The window is computed before the \<open>try\<close> (lines 44-45).\<close>

definition fetch_alpha_vantage_news :: "institutional_fetcher \<Rightarrow> string \<Rightarrow> int \<Rightarrow> exn + frame" where
  "fetch_alpha_vantage_news self ticker days =
     (if alpha_vantage_key self = None \<or> alpha_vantage_key self = Some [] then Inr (DataFrame [])
      else
        case date_range (now self) days of
          Inl e \<Rightarrow> Inl e
        | Inr (start_date, end_date) \<Rightarrow>
            (case alpha_try self ticker start_date end_date of
               Inl e \<Rightarrow> Inr (DataFrame [])
             | Inr df \<Rightarrow> Inr df))"

definition get_company_name :: "string \<Rightarrow> string" where
  "get_company_name ticker =
     (case map_of [(''AAPL'', ''Apple''), (''NVDA'', ''NVIDIA''), (''MSFT'', ''Microsoft''),
                   (''TSLA'', ''Tesla''), (''AMZN'', ''Amazon''), (''GOOGL'', ''Google''),
                   (''META'', ''Meta''), (''NFLX'', ''Netflix'')] ticker of
        Some name \<Rightarrow> name
      | None \<Rightarrow> ticker)"

text \<open>The list comprehension of lines 143-149: one exception ends all of it.\<close>

fun news_data :: "article list \<Rightarrow> exn + dict list" where
  "news_data [] = Inr []"
| "news_data (a # articles) =
     (case publishedAt a of
        Inl e \<Rightarrow> Inl e
      | Inr timestamp \<Rightarrow>
          (case news_data articles of
             Inl e \<Rightarrow> Inl e
           | Inr ds \<Rightarrow>
               Inr ([(''text'', StrC (article_title a @ '' '' @ description a)),
                     (''timestamp'', TimeC timestamp),
                     (''source'', StrC ''Financial News''),
                     (''publisher'', StrC (source_name a)),
                     (''url'', StrC (article_url a))] # ds)))"

text \<open>The body of the \<open>try\<close> of \<open>fetch_news_api\<close> (lines 124-151).\<close>

definition news_try :: "institutional_fetcher \<Rightarrow> news_params \<Rightarrow> exn + frame" where
  "news_try self params =
     (case news_get self params of
        Inl e \<Rightarrow> Inl e
      | Inr response \<Rightarrow>
          if status_code response \<noteq> 200 then Inr (DataFrame [])
          else
            (case response_json response of
               Inl e \<Rightarrow> Inl e
             | Inr articles \<Rightarrow>
                 if articles = [] then Inr (DataFrame [])
                 else (case news_data articles of
                         Inl e \<Rightarrow> Inl e
                       | Inr ds \<Rightarrow> Inr (DataFrame ds))))"

definition fetch_news_api :: "institutional_fetcher \<Rightarrow> string \<Rightarrow> int \<Rightarrow> exn + frame" where
  "fetch_news_api self ticker days =
     (if news_api_key self = None \<or> news_api_key self = Some []
         \<or> news_api_key self = Some ''your_news_api_key''
      then Inr (DataFrame [])
      else
        case date_range (now self) days of
          Inl e \<Rightarrow> Inl e
        | Inr (start_date, end_date) \<Rightarrow>
            (case news_try self
                    \<lparr>query = ticker @ '' OR '' @ get_company_name ticker,
                     from_day = start_date div 86400000000,
                     to_day = end_date div 86400000000,
                     apiKey = str_of (news_api_key self)\<rparr> of
               Inl e \<Rightarrow> Inr (DataFrame [])
             | Inr df \<Rightarrow> Inr df))"

text \<open>
  \<open>get_institutional_sentiment\<close>. Nothing here is inside a \<open>try\<close>: an exception of a
  fetcher or of the classifier reaches the caller.
\<close>

definition get_institutional_sentiment ::
  "institutional_fetcher \<Rightarrow> string \<Rightarrow> int \<Rightarrow> exn + frame" where
  "get_institutional_sentiment self ticker days =
     (case fetch_alpha_vantage_news self ticker days of
        Inl e \<Rightarrow> Inl e
      | Inr alpha_vantage_df \<Rightarrow>
          (case (if empty_df alpha_vantage_df then fetch_news_api self ticker days
                 else Inr (DataFrame [])) of
             Inl e \<Rightarrow> Inl e
           | Inr news_api_df \<Rightarrow>
               let dfs = (if \<not> empty_df alpha_vantage_df then [alpha_vantage_df] else [])
                         @ (if \<not> empty_df news_api_df then [news_api_df] else [])
               in if dfs = [] then Inr (DataFrame [])
                  else
                    let combined_df = set_column (pd_concat dfs) ''ticker'' (StrC ticker)
                    in if \<not> empty_df combined_df
                           \<and> ''sentiment_score'' \<notin> set (columns combined_df)
                       then analyze_dataframe (analyze_text self) combined_df
                       else Inr combined_df))"

section \<open>main.fetch_all_sentiment_data\<close>

text \<open>Lines 31-37: scoring and tagging of the social frame.\<close>

definition tag_wsb :: "analyzer \<Rightarrow> frame \<Rightarrow> exn + frame" where
  "tag_wsb sentiment_analyzer wsb_df =
     (if \<not> empty_df wsb_df then
        (case (if ''positive'' \<notin> set (columns wsb_df)
               then analyze_dataframe sentiment_analyzer wsb_df else Inr wsb_df) of
           Inl e \<Rightarrow> Inl e
         | Inr df \<Rightarrow>
             Inr (DataFrame (to_dict_records (set_column df ''source'' (StrC ''WallStreetBets'')))))
      else Inr wsb_df)"

text \<open>Lines 39-47: the same for the news frame, whose source tag is kept when it has one.\<close>

definition tag_institutional :: "analyzer \<Rightarrow> frame \<Rightarrow> exn + frame" where
  "tag_institutional sentiment_analyzer institutional_df =
     (if \<not> empty_df institutional_df then
        (case (if ''positive'' \<notin> set (columns institutional_df)
               then analyze_dataframe sentiment_analyzer institutional_df
               else Inr institutional_df) of
           Inl e \<Rightarrow> Inl e
         | Inr df \<Rightarrow>
             Inr (DataFrame (to_dict_records
                    (if ''source'' \<notin> set (columns df)
                     then set_column df ''source'' (StrC ''Financial News'') else df))))
      else Inr institutional_df)"

text \<open>
  Lines 49-61, the merge. \<open>list(set(a) & set(b))\<close> enumerates the common columns in an
  order Python does not fix; the model takes them in the order of the social frame.
\<close>

definition combine_frames :: "frame \<Rightarrow> frame \<Rightarrow> exn + frame" where
  "combine_frames wsb_df institutional_df =
     (if \<not> empty_df wsb_df \<and> \<not> empty_df institutional_df then
        let common_cols = unique (filter (\<lambda>c. c \<in> set (columns institutional_df)) (columns wsb_df))
        in case project wsb_df common_cols of
             Inl e \<Rightarrow> Inl e
           | Inr w \<Rightarrow>
               (case project institutional_df common_cols of
                  Inl e \<Rightarrow> Inl e
                | Inr i \<Rightarrow> Inr (pd_concat [w, i]))
      else if \<not> empty_df wsb_df then Inr wsb_df
      else if \<not> empty_df institutional_df then Inr institutional_df
      else Inr (DataFrame []))"

text \<open>
  The whole function, as one call (the Streamlit cache around it is not modelled); the
  analyzer is taken as constructed. Line 64 prints \<open>combined_df['source'].unique()\<close> when the
  combined frame is not empty, which raises KeyError on a frame without that column.
\<close>

definition fetch_all_sentiment_data ::
  "wsb_fetcher \<Rightarrow> institutional_fetcher \<Rightarrow> analyzer \<Rightarrow> string \<Rightarrow> int \<Rightarrow> exn + frame" where
  "fetch_all_sentiment_data wsb_fetcher institutional_fetcher sentiment_analyzer ticker days =
     (case fetch_wsb_posts wsb_fetcher ticker days of
        Inl e \<Rightarrow> Inl e
      | Inr wsb_raw \<Rightarrow>
          (case get_institutional_sentiment institutional_fetcher ticker days of
             Inl e \<Rightarrow> Inl e
           | Inr institutional_raw \<Rightarrow>
               (case tag_wsb sentiment_analyzer wsb_raw of
                  Inl e \<Rightarrow> Inl e
                | Inr wsb_df \<Rightarrow>
                    (case tag_institutional sentiment_analyzer institutional_raw of
                       Inl e \<Rightarrow> Inl e
                     | Inr institutional_df \<Rightarrow>
                         (case combine_frames wsb_df institutional_df of
                            Inl e \<Rightarrow> Inl e
                          | Inr combined_df \<Rightarrow>
                              if \<not> empty_df combined_df then
                                (case getitem combined_df ''source'' of
                                   Inl e \<Rightarrow> Inl e
                                 | Inr sources_present \<Rightarrow> Inr combined_df)
                              else Inr combined_df)))))"


section \<open>Notions used to state the properties\<close>

text \<open>What the inner \<open>try\<close> of the social fetcher appends for a post, if anything.\<close>

definition accept :: "string \<Rightarrow> int \<Rightarrow> int \<Rightarrow> post \<Rightarrow> dict option" where
  "accept ticker s e p = (case process_post ticker s e p of Inr (Some d) \<Rightarrow> Some d | _ \<Rightarrow> None)"

text \<open>The posts a listing yields; none when the call that builds it raises.\<close>

definition items :: "exn + listing \<Rightarrow> post list" where
  "items l = (case l of Inl e \<Rightarrow> [] | Inr (ps, fault) \<Rightarrow> ps)"

text \<open>Everything the three searches yield for a ticker, and everything the three listings yield.\<close>

definition searched :: "subreddit \<Rightarrow> string \<Rightarrow> post list" where
  "searched sub ticker =
     fst (search sub ticker ''day'') @ fst (search sub ticker ''week'')
     @ fst (search sub ticker ''month'')"

definition listed :: "subreddit \<Rightarrow> post list" where
  "listed sub = items (hot_listing sub) @ items (new_listing sub) @ items (top_listing sub)"

text \<open>No permalink is yielded twice by the searches, nor twice by the listings.\<close>

definition upstream_distinct :: "wsb_fetcher \<Rightarrow> string \<Rightarrow> bool" where
  "upstream_distinct self ticker =
     (case reddit self of
        Some (Inr sub) \<Rightarrow>
          distinct (map permalink (searched sub ticker)) \<and> distinct (map permalink (listed sub))
      | _ \<Rightarrow> True)"





section \<open>Concrete inputs\<close>

text \<open>Three scored records of two sources, with nets 0.6 (news) and -0.2 (social).\<close>

definition two_group_frame :: frame where
  "two_group_frame = \<lparr>columns = [''text'', ''source'', ''negative'', ''neutral'', ''positive''],
     rows = [[(''text'', StrC ''a''), (''source'', StrC ''Financial News''),
              (''negative'', FloatC (1 / 10)), (''neutral'', FloatC 0), (''positive'', FloatC (9 / 10))],
             [(''text'', StrC ''b''), (''source'', StrC ''WallStreetBets''),
              (''negative'', FloatC (5 / 10)), (''neutral'', FloatC (2 / 10)), (''positive'', FloatC (3 / 10))],
             [(''text'', StrC ''c''), (''source'', StrC ''Financial News''),
              (''negative'', FloatC (3 / 10)), (''neutral'', FloatC 0), (''positive'', FloatC (7 / 10))]]\<rparr>"

text \<open>
  Three posts of the last day before the clock reading 64000000000000000: one names the
  ticker in its title, one does not name it, one names it in lower case in its body.
\<close>

definition post_a :: post where
  "post_a = \<lparr>created_utc = 63999990000000000, title = Some ''AAPL to the moon'',
             selftext = Some [], score = 120, num_comments = 45,
             permalink = ''/r/wallstreetbets/comments/a1/''\<rparr>"

definition post_b :: post where
  "post_b = \<lparr>created_utc = 63999980000000000, title = Some ''GME squeeze'',
             selftext = Some ''diamond hands'', score = 7, num_comments = 3,
             permalink = ''/r/wallstreetbets/comments/b2/''\<rparr>"

definition post_c :: post where
  "post_c = \<lparr>created_utc = 63999970000000000, title = Some ''Earnings play'',
             selftext = Some ''buying aapl calls'', score = 15, num_comments = 9,
             permalink = ''/r/wallstreetbets/comments/c3/''\<rparr>"

text \<open>The dicts the fetcher builds from the first and the third post for \<open>AAPL\<close>.\<close>

definition row_a :: dict where
  "row_a = [(''text'', StrC ''AAPL to the moon ''), (''timestamp'', TimeC 63999990000000000),
            (''score'', IntC 120), (''num_comments'', IntC 45),
            (''url'', StrC ''https://www.reddit.com/r/wallstreetbets/comments/a1/''),
            (''source'', StrC ''WallStreetBets''), (''ticker'', StrC ''AAPL'')]"

definition row_c :: dict where
  "row_c = [(''text'', StrC ''Earnings play buying aapl calls''),
            (''timestamp'', TimeC 63999970000000000),
            (''score'', IntC 15), (''num_comments'', IntC 9),
            (''url'', StrC ''https://www.reddit.com/r/wallstreetbets/comments/c3/''),
            (''source'', StrC ''WallStreetBets''), (''ticker'', StrC ''AAPL'')]"

text \<open>A client whose day search yields three posts and whose wider searches yield nothing new.\<close>

definition day_fetcher :: wsb_fetcher where
  "day_fetcher =
     \<lparr>reddit = Some (Inr \<lparr>search = (\<lambda>q tf. if tf = ''day'' then ([post_a, post_b, post_c], None)
                                            else ([], None)),
                          hot_listing = Inr ([], None), new_listing = Inr ([], None),
                          top_listing = Inr ([], None)\<rparr>),
      clock = 64000000000000000\<rparr>"

text \<open>A client whose week search returns again the post of the day search.\<close>

definition overlap_fetcher :: wsb_fetcher where
  "overlap_fetcher =
     \<lparr>reddit = Some (Inr \<lparr>search = (\<lambda>q tf. if tf = ''day'' then ([post_a], None)
                                            else if tf = ''week'' then ([post_a, post_c], None)
                                            else ([], None)),
                          hot_listing = Inr ([], None), new_listing = Inr ([], None),
                          top_listing = Inr ([], None)\<rparr>),
      clock = 64000000000000000\<rparr>"



text \<open>A fetcher whose client could not be built.\<close>

definition no_client :: wsb_fetcher where
  "no_client = \<lparr>reddit = None, clock = 64000000000000000\<rparr>"

text \<open>
  An article about the company that does not name the ticker, published six hours into
  the first day of the requested window.
\<close>

definition early_article :: article where
  "early_article = \<lparr>article_title = ''Apple unveils new iPhone'',
                     description = ''Cupertino event draws crowds'',
                     publishedAt = Inr 63999352800000000,
                     source_name = ''Reuters'',
                     article_url = ''https://example.com/apple-event''\<rparr>"

text \<open>An item of the Alpha Vantage feed, inside the window.\<close>

definition feed_example :: feed_item where
  "feed_example = \<lparr>time_published = Some 63999990000000000,
                    item_title = ''AAPL rallies'', item_summary = ''Shares of AAPL rose'',
                    item_source = ''Benzinga'', item_url = ''https://example.com/aapl-rallies''\<rparr>"

text \<open>
  A fetcher with both keys. Alpha Vantage answers 200 with a feed of one article inside
  the window; the News API answers 200 with the articles of its archive that match the
  query and whose day lies between \<open>from\<close> and \<open>to\<close>.
\<close>

definition news_fetcher :: institutional_fetcher where
  "news_fetcher =
     \<lparr>alpha_vantage_key = Some ''demo'',
      news_api_key = Some ''k1'',
      alpha_get = (\<lambda>url. Inr \<lparr>status_code = 200, response_json = Inr (Some [feed_example])\<rparr>),
      news_get = (\<lambda>params.
         Inr \<lparr>status_code = 200,
              response_json =
                Inr (filter (\<lambda>a. is_in ''Apple'' (query params) \<and>
                                  (case publishedAt a of
                                     Inl e \<Rightarrow> False
                                   | Inr t \<Rightarrow> from_day params \<le> t div 86400000000
                                              \<and> t div 86400000000 \<le> to_day params))
                       [early_article])\<rparr>),
      now = 64000000000000000,
      analyze_text = (\<lambda>t. Inr (1 / 10, 2 / 10, 7 / 10))\<rparr>"

text \<open>The dict built from that article, and the same after the ticker and the scores are added.\<close>

definition news_row :: dict where
  "news_row = [(''text'', StrC ''Apple unveils new iPhone Cupertino event draws crowds''),
               (''timestamp'', TimeC 63999352800000000),
               (''source'', StrC ''Financial News''),
               (''publisher'', StrC ''Reuters''),
               (''url'', StrC ''https://example.com/apple-event'')]"



text \<open>A fetcher without keys, and one with keys whose requests all fail on the network.\<close>

definition offline_fetcher :: institutional_fetcher where
  "offline_fetcher =
     \<lparr>alpha_vantage_key = None,
      news_api_key = None,
      alpha_get = (\<lambda>url. Inl ConnectionError),
      news_get = (\<lambda>params. Inl ConnectionError),
      now = 64000000000000000,
      analyze_text = (\<lambda>t. Inl RuntimeError)\<rparr>"


text \<open>A scored social frame, a scored news frame, and their merge.\<close>

definition social_frame :: frame where
  "social_frame =
     \<lparr>columns = [''text'', ''score'', ''source'', ''negative'', ''positive''],
      rows = [[(''text'', StrC ''AAPL to the moon''), (''score'', IntC 120),
               (''source'', StrC ''WallStreetBets''),
               (''negative'', FloatC (1 / 10)), (''positive'', FloatC (8 / 10))]]\<rparr>"

definition press_frame :: frame where
  "press_frame =
     \<lparr>columns = [''text'', ''source'', ''publisher'', ''negative'', ''positive''],
      rows = [[(''text'', StrC ''Apple beats estimates''), (''source'', StrC ''Financial News''),
               (''publisher'', StrC ''Reuters''),
               (''negative'', FloatC (2 / 10)), (''positive'', FloatC (6 / 10))],
              [(''text'', StrC ''Apple faces probe''), (''source'', StrC ''Financial News''),
               (''publisher'', StrC ''Bloomberg''),
               (''negative'', FloatC (7 / 10)), (''positive'', FloatC (1 / 10))]]\<rparr>"

definition merged_frame :: frame where
  "merged_frame =
     \<lparr>columns = [''text'', ''source'', ''negative'', ''positive''],
      rows = [[(''text'', StrC ''AAPL to the moon''), (''source'', StrC ''WallStreetBets''),
               (''negative'', FloatC (1 / 10)), (''positive'', FloatC (8 / 10))],
              [(''text'', StrC ''Apple beats estimates''), (''source'', StrC ''Financial News''),
               (''negative'', FloatC (2 / 10)), (''positive'', FloatC (6 / 10))],
              [(''text'', StrC ''Apple faces probe''), (''source'', StrC ''Financial News''),
               (''negative'', FloatC (7 / 10)), (''positive'', FloatC (1 / 10))]]\<rparr>"

text \<open>
  One scored news record whose positive score is Python's \<open>0.4\<close>, the double
  3602879701896397 / 2 ^ 53, and whose negative score is 0.
\<close>

definition point4_frame :: frame where
  "point4_frame =
     \<lparr>columns = [''text'', ''source'', ''negative'', ''neutral'', ''positive''],
      rows = [[(''text'', StrC ''a''), (''source'', StrC ''Financial News''),
               (''negative'', FloatC 0),
               (''neutral'', FloatC (5404319552844595 / 9007199254740992)),
               (''positive'', FloatC (3602879701896397 / 9007199254740992))]]\<rparr>"


section \<open>Facts about the weighted index\<close>

lemma set_unique: "set (unique xs) = set xs"
  by (simp add: unique_def)

lemma distinct_unique: "distinct (unique xs)"
  by (simp add: unique_def)

lemma weights_get_spec: "weights_get s (1 / 2) = spec_weight s"
  by (simp add: weights_get_def weights_def spec_weight_def)

lemma spec_weight_pos: "0 < spec_weight s"
  by (simp add: spec_weight_def)

lemma floats_values:
  "list_all (\<lambda>r. case map_of r c of Some (FloatC x) \<Rightarrow> True | _ \<Rightarrow> False) rs \<Longrightarrow>
   floats (map (\<lambda>r. map_of r c) rs)
     = Inr (concat (map (\<lambda>r. case map_of r c of Some (FloatC x) \<Rightarrow> [x] | _ \<Rightarrow> []) rs))"
  by (induction rs) (auto split: option.splits cell.splits)

lemma column_mean_group:
  assumes "c \<in> set (columns df)"
    and "list_all (\<lambda>r. case map_of r c of Some (FloatC x) \<Rightarrow> True | _ \<Rightarrow> False) (rows df)"
  shows "column_mean (select_eq df ''source'' s) c = Inr (mean (spec_group_values df s c))"
proof -
  have "list_all (\<lambda>r. case map_of r c of Some (FloatC x) \<Rightarrow> True | _ \<Rightarrow> False)
          (filter (\<lambda>r. map_of r ''source'' = s) (rows df))"
    using assms(2) by (simp add: list_all_iff)
  from floats_values [OF this] assms(1) show ?thesis
    by (simp add: column_mean_def getitem_def select_eq_def spec_group_values_def)
qed

lemma scored_positive:
  "scored df \<Longrightarrow> list_all (\<lambda>r. case map_of r ''positive'' of Some (FloatC x) \<Rightarrow> True | _ \<Rightarrow> False) (rows df)"
  by (auto simp: scored_def list_all_iff)

lemma scored_negative:
  "scored df \<Longrightarrow> list_all (\<lambda>r. case map_of r ''negative'' of Some (FloatC x) \<Rightarrow> True | _ \<Rightarrow> False) (rows df)"
  by (auto simp: scored_def list_all_iff)

lemma source_sentiments_net:
  assumes "scored df"
  shows "source_sentiments df srcs = Inr (map (\<lambda>s. (s, spec_net df s)) srcs)"
proof (induction srcs)
  case Nil
  show ?case by simp
next
  case (Cons s srcs)
  have p: "column_mean (select_eq df ''source'' s) ''positive'' = Inr (mean (spec_group_values df s ''positive''))"
    using assms by (intro column_mean_group scored_positive) (simp_all add: scored_def)
  have n: "column_mean (select_eq df ''source'' s) ''negative'' = Inr (mean (spec_group_values df s ''negative''))"
    using assms by (intro column_mean_group scored_negative) (simp_all add: scored_def)
  show ?case
    by (simp add: p n Cons.IH spec_net_def)
qed

lemma weighted_loop_sums:
  "weighted_loop ss (a, b) =
     (a + (\<Sum>(s, x)\<leftarrow>ss. x * spec_weight s), b + (\<Sum>(s, x)\<leftarrow>ss. spec_weight s))"
  by (induction ss arbitrary: a b) (auto simp: weights_get_spec Let_def algebra_simps)

lemma weighted_loop_net:
  "weighted_loop (map (\<lambda>s. (s, f s)) srcs) (0, 0) =
     ((\<Sum>s\<leftarrow>srcs. f s * spec_weight s), (\<Sum>s\<leftarrow>srcs. spec_weight s))"
  by (simp add: weighted_loop_sums comp_def)

lemma calculate_scored:
  assumes "scored df" and "rows df \<noteq> []"
  shows "calculate_weighted_sentiment df =
     Inr ((\<Sum>s\<in>spec_sources df. spec_net df s * spec_weight s) / (\<Sum>s\<in>spec_sources df. spec_weight s))"
proof -
  let ?srcs = "unique (map (\<lambda>r. map_of r ''source'') (rows df))"
  have ne: "\<not> empty_df df" using assms by (auto simp: empty_df_def scored_def)
  have col: "getitem df ''source'' = Inr (map (\<lambda>r. map_of r ''source'') (rows df))"
    using assms by (simp add: getitem_def scored_def)
  have d: "distinct ?srcs" by (rule distinct_unique)
  have s: "set ?srcs = spec_sources df" by (simp add: set_unique spec_sources_def)
  have s1: "(\<Sum>s\<leftarrow>?srcs. spec_net df s * spec_weight s) = (\<Sum>s\<in>spec_sources df. spec_net df s * spec_weight s)"
    using sum_list_distinct_conv_sum_set [OF d, of "\<lambda>s. spec_net df s * spec_weight s"] s by simp
  have s2: "(\<Sum>s\<leftarrow>?srcs. spec_weight s) = (\<Sum>s\<in>spec_sources df. spec_weight s)"
    using sum_list_distinct_conv_sum_set [OF d, of spec_weight] s by simp
  have "spec_sources df \<noteq> {}" using assms(2) by (simp add: spec_sources_def)
  moreover have "finite (spec_sources df)" by (simp add: spec_sources_def)
  ultimately have pos: "0 < (\<Sum>s\<in>spec_sources df. spec_weight s)"
    by (intro sum_pos) (simp_all add: spec_weight_pos)
  show ?thesis
    unfolding calculate_weighted_sentiment_def
    by (simp add: ne col source_sentiments_net [OF assms(1)] weighted_loop_net s1 s2 pos)
qed

lemma sum_list_unit:
  "\<forall>x\<in>set xs. 0 \<le> x \<and> x \<le> (1::real) \<Longrightarrow> 0 \<le> sum_list xs \<and> sum_list xs \<le> real (length xs)"
  by (induction xs) auto

lemma mean_unit:
  assumes "\<forall>x\<in>set xs. 0 \<le> x \<and> x \<le> (1::real)"
  shows "0 \<le> mean xs \<and> mean xs \<le> 1"
proof (cases "xs = []")
  case True
  then show ?thesis by (simp add: mean_def)
next
  case False
  then have "0 < real (length xs)" by simp
  with sum_list_unit [OF assms] show ?thesis
    by (simp add: mean_def divide_le_eq)
qed

lemma group_values_unit:
  assumes "list_all (\<lambda>r. case map_of r c of Some (FloatC p) \<Rightarrow> 0 \<le> p \<and> p \<le> 1 | _ \<Rightarrow> False) (rows df)"
  shows "\<forall>x\<in>set (spec_group_values df s c). 0 \<le> x \<and> x \<le> 1"
  using assms
  by (auto simp: spec_group_values_def list_all_iff split: option.splits cell.splits)

lemma net_unit:
  assumes "unit_scores df"
  shows "- 1 \<le> spec_net df s \<and> spec_net df s \<le> 1"
proof -
  have p: "0 \<le> mean (spec_group_values df s ''positive'') \<and> mean (spec_group_values df s ''positive'') \<le> 1"
    using assms by (intro mean_unit group_values_unit) (simp add: unit_scores_def list_all_iff)
  have n: "0 \<le> mean (spec_group_values df s ''negative'') \<and> mean (spec_group_values df s ''negative'') \<le> 1"
    using assms by (intro mean_unit group_values_unit) (simp add: unit_scores_def list_all_iff)
  from p n show ?thesis by (simp add: spec_net_def)
qed

lemma weighted_average_unit:
  assumes "finite S" and "S \<noteq> {}"
    and "\<And>s. s \<in> S \<Longrightarrow> - 1 \<le> f s \<and> f s \<le> (1::real)"
    and "\<And>s. s \<in> S \<Longrightarrow> 0 < w s"
  shows "- 1 \<le> (\<Sum>s\<in>S. f s * w s) / (\<Sum>s\<in>S. w s) \<and> (\<Sum>s\<in>S. f s * w s) / (\<Sum>s\<in>S. w s) \<le> 1"
proof -
  have pos: "0 < (\<Sum>s\<in>S. w s)" using assms by (intro sum_pos) auto
  have up: "(\<Sum>s\<in>S. f s * w s) \<le> (\<Sum>s\<in>S. w s)"
  proof (rule sum_mono)
    fix s assume "s \<in> S"
    then have "f s \<le> 1" "0 < w s" using assms by auto
    then show "f s * w s \<le> w s" by (simp add: mult_left_le_one_le)
  qed
  have lo: "(\<Sum>s\<in>S. - w s) \<le> (\<Sum>s\<in>S. f s * w s)"
  proof (rule sum_mono)
    fix s assume "s \<in> S"
    then have "- 1 \<le> f s" "0 < w s" using assms by auto
    then have "- 1 * w s \<le> f s * w s" by (intro mult_right_mono) auto
    then show "- w s \<le> f s * w s" by simp
  qed
  then have lo': "- (\<Sum>s\<in>S. w s) \<le> (\<Sum>s\<in>S. f s * w s)" by (simp add: sum_negf)
  from pos up lo' show ?thesis by (simp add: le_divide_eq divide_le_eq)
qed

section \<open>Facts about the index in doubles\<close>

lemma exponent_below_eq:
  "- 1074 \<le> e \<Longrightarrow> e + 1074 < int n \<Longrightarrow> 2 powi e \<le> x \<Longrightarrow> x < 2 powi (e + 1)
   \<Longrightarrow> exponent_below n x = e"
proof (induction n)
  case 0
  then show ?case by simp
next
  case (Suc n)
  show ?case
  proof (cases "e + 1074 = int n")
    case True
    then have "int n - 1074 = e" by simp
    with Suc.prems show ?thesis by simp
  next
    case False
    with Suc.prems have lt: "e + 1074 < int n" by simp
    then have "e + 1 \<le> int n - 1074" by simp
    then have "(2::real) powi (e + 1) \<le> 2 powi (int n - 1074)"
      by (intro power_int_increasing) simp_all
    with Suc.prems have "\<not> 2 powi (int n - 1074) \<le> x" by simp
    with Suc.IH [OF Suc.prems(1) lt Suc.prems(3,4)] show ?thesis by simp
  qed
qed

lemma binade_eq:
  "- 1074 \<le> e \<Longrightarrow> e \<le> 1023 \<Longrightarrow> 2 powi e \<le> \<bar>x\<bar> \<Longrightarrow> \<bar>x\<bar> < 2 powi (e + 1)
   \<Longrightarrow> binade x = e"
  unfolding binade_def by (rule exponent_below_eq) simp_all

text \<open>Rounding a number whose binade is known.\<close>

lemma double_eval:
  "- 1022 \<le> e \<Longrightarrow> e \<le> 1023 \<Longrightarrow> 2 powi e \<le> \<bar>x\<bar> \<Longrightarrow> \<bar>x\<bar> < 2 powi (e + 1)
   \<Longrightarrow> double x = of_int (round_half_even (x / 2 powi (e - 52))) * 2 powi (e - 52)"
  using binade_eq [of e x] by (simp add: double_def Let_def)

lemma double_zero: "double 0 = 0"
  by (simp add: double_def round_half_even_def)

text \<open>The doubles of the three weights, and of Python's \<open>0.4\<close>.\<close>

lemma double_7_10: "double (7 / 10) = 3152519739159347 / 4503599627370496"
  using double_eval [of "- 1" "7 / 10"]
  by (simp add: round_half_even_def power_int_minus)

lemma double_3_10: "double (3 / 10) = 5404319552844595 / 18014398509481984"
  using double_eval [of "- 2" "3 / 10"]
  by (simp add: round_half_even_def power_int_minus)

lemma double_1_2: "double (1 / 2) = 1 / 2"
  using double_eval [of "- 1" "1 / 2"]
  by (simp add: round_half_even_def power_int_minus)

lemma double_4_10: "double (4 / 10) = 3602879701896397 / 9007199254740992"
  using double_eval [of "- 2" "4 / 10"]
  by (simp add: round_half_even_def power_int_minus)

text \<open>These values are doubles: rounding leaves them as they are.\<close>

lemma double_w7: "double (3152519739159347 / 4503599627370496) = 3152519739159347 / 4503599627370496"
  using double_eval [of "- 1" "3152519739159347 / 4503599627370496"]
  by (simp add: round_half_even_def power_int_minus)

lemma double_w3: "double (5404319552844595 / 18014398509481984) = 5404319552844595 / 18014398509481984"
  using double_eval [of "- 2" "5404319552844595 / 18014398509481984"]
  by (simp add: round_half_even_def power_int_minus)

lemma double_p4: "double (3602879701896397 / 9007199254740992) = 3602879701896397 / 9007199254740992"
  using double_eval [of "- 2" "3602879701896397 / 9007199254740992"]
  by (simp add: round_half_even_def power_int_minus)

lemma double_prod: "double (5044031582654955 / 18014398509481984) = 5044031582654955 / 18014398509481984"
  using double_eval [of "- 2" "5044031582654955 / 18014398509481984"]
  by (simp add: round_half_even_def power_int_minus)

text \<open>\<open>0.4 * 0.7\<close> and \<open>(0.4 * 0.7) / 0.7\<close> in doubles.\<close>

lemma double_p4_times_w7:
  "double (3602879701896397 / 9007199254740992 * (3152519739159347 / 4503599627370496))
     = 5044031582654955 / 18014398509481984"
  using double_eval [of "- 2"
      "3602879701896397 / 9007199254740992 * (3152519739159347 / 4503599627370496)"]
  by (simp add: round_half_even_def power_int_minus)

lemma double_prod_by_w7:
  "double (5044031582654955 / 18014398509481984 / (3152519739159347 / 4503599627370496))
     = 7205759403792793 / 18014398509481984"
  using double_eval [of "- 2"
      "5044031582654955 / 18014398509481984 / (3152519739159347 / 4503599627370496)"]
  by (simp add: round_half_even_def power_int_minus)

lemma double_weight:
  "double (0 + double (spec_weight s)) = double (spec_weight s) \<and> 0 < double (spec_weight s)"
  by (simp add: spec_weight_def double_7_10 double_3_10 double_1_2 double_w7 double_w3)

lemma column_mean64_group:
  assumes "c \<in> set (columns df)"
    and "list_all (\<lambda>r. case map_of r c of Some (FloatC x) \<Rightarrow> True | _ \<Rightarrow> False) (rows df)"
  shows "column_mean64 (select_eq df ''source'' s) c = Inr (mean64 (spec_group_values df s c))"
proof -
  have "list_all (\<lambda>r. case map_of r c of Some (FloatC x) \<Rightarrow> True | _ \<Rightarrow> False)
          (filter (\<lambda>r. map_of r ''source'' = s) (rows df))"
    using assms(2) by (simp add: list_all_iff)
  from floats_values [OF this] assms(1) show ?thesis
    by (simp add: column_mean64_def getitem_def select_eq_def spec_group_values_def)
qed

lemma source_sentiments_f64_net:
  assumes "scored df"
  shows "source_sentiments_f64 df srcs = Inr (map (\<lambda>s. (s, spec_net64 df s)) srcs)"
proof (induction srcs)
  case Nil
  show ?case by simp
next
  case (Cons s srcs)
  have p: "column_mean64 (select_eq df ''source'' s) ''positive''
             = Inr (mean64 (spec_group_values df s ''positive''))"
    using assms by (intro column_mean64_group scored_positive) (simp_all add: scored_def)
  have n: "column_mean64 (select_eq df ''source'' s) ''negative''
             = Inr (mean64 (spec_group_values df s ''negative''))"
    using assms by (intro column_mean64_group scored_negative) (simp_all add: scored_def)
  show ?case
    by (simp add: p n Cons.IH spec_net64_def)
qed

lemma remdups_all_equal: "xs \<noteq> [] \<Longrightarrow> \<forall>x\<in>set xs. x = s \<Longrightarrow> remdups xs = [s]"
proof (induction xs)
  case Nil
  then show ?case by simp
next
  case (Cons x xs)
  from Cons.prems(2) have x: "x = s" by simp
  show ?case
  proof (cases "xs = []")
    case True
    with x show ?thesis by simp
  next
    case False
    from Cons.prems(2) have all: "\<forall>y\<in>set xs. y = s" by simp
    from False all have r: "remdups xs = [s]" by (rule Cons.IH)
    from False obtain y ys where "xs = y # ys" by (cases xs) blast+
    with all have "s \<in> set xs" by simp
    with x r show ?thesis by simp
  qed
qed

lemma unique_all_equal: "xs \<noteq> [] \<Longrightarrow> \<forall>x\<in>set xs. x = s \<Longrightarrow> unique xs = [s]"
  using remdups_all_equal [of "rev xs" s] by (simp add: unique_def)

lemma single_source_f64:
  assumes "scored df" and "rows df \<noteq> []"
    and "\<forall>r\<in>set (rows df). map_of r ''source'' = s"
  shows "source_sentiments_f64 df (unique (map (\<lambda>r. map_of r ''source'') (rows df)))
           = Inr [(s, spec_net64 df s)]"
    and "calculate_weighted_sentiment_f64 df
           = Inr (double (double (0 + double (spec_net64 df s * double (spec_weight s)))
                          / double (0 + double (spec_weight s))))"
proof -
  have u: "unique (map (\<lambda>r. map_of r ''source'') (rows df)) = [s]"
    using assms(2,3) by (intro unique_all_equal) auto
  show ss: "source_sentiments_f64 df (unique (map (\<lambda>r. map_of r ''source'') (rows df)))
           = Inr [(s, spec_net64 df s)]"
    unfolding u using source_sentiments_f64_net [OF assms(1), of "[s]"] by simp
  have ne: "\<not> empty_df df" using assms by (auto simp: empty_df_def scored_def)
  have col: "getitem df ''source'' = Inr (map (\<lambda>r. map_of r ''source'') (rows df))"
    using assms by (simp add: getitem_def scored_def)
  have w: "double (double (spec_weight s)) = double (spec_weight s)" "0 < double (spec_weight s)"
    using double_weight [of s] by simp_all
  show "calculate_weighted_sentiment_f64 df
           = Inr (double (double (0 + double (spec_net64 df s * double (spec_weight s)))
                          / double (0 + double (spec_weight s))))"
    unfolding calculate_weighted_sentiment_f64_def
    by (simp add: ne col ss weights_get_spec w Let_def)
qed

section \<open>Facts about the social fetcher\<close>

lemma rows_DataFrame: "rows (DataFrame ds) = ds"
  by (simp add: DataFrame_def)

lemma empty_DataFrame_Nil: "empty_df (DataFrame [])"
  by (simp add: empty_df_def DataFrame_def)

lemma collect_posts_map_filter:
  "collect_posts ticker s e ps acc = acc @ List.map_filter (accept ticker s e) ps"
  by (induction ps arbitrary: acc)
     (auto simp: accept_def split: sum.splits option.splits)

lemma map_filter_append:
  "List.map_filter f (xs @ ys) = List.map_filter f xs @ List.map_filter f ys"
  by (simp add: map_filter_def)

lemma set_map_filter:
  "set (List.map_filter f xs) = {y. \<exists>x\<in>set xs. f x = Some y}"
  by (induction xs) (auto split: option.splits)

lemma subseq_distinct: "subseq xs ys \<Longrightarrow> distinct ys \<Longrightarrow> distinct xs"
proof (induction rule: list_emb.induct)
  case (list_emb_Nil ys)
  show ?case by simp
next
  case (list_emb_Cons xs ys y)
  then show ?case by simp
next
  case (list_emb_Cons2 x y xs ys)
  from \<open>subseq xs ys\<close> have "set xs \<subseteq> set ys" by (auto dest: list_emb_set)
  with list_emb_Cons2 show ?case by auto
qed

lemma search_loop_posts:
  "\<exists>qs. subseq qs (concat (map (\<lambda>tf. fst (search sub ticker tf)) fs))
       \<and> search_loop sub ticker s e fs acc = acc @ List.map_filter (accept ticker s e) qs"
proof (induction fs arbitrary: acc)
  case Nil
  have "subseq [] (concat (map (\<lambda>tf. fst (search sub ticker tf)) []))
        \<and> search_loop sub ticker s e [] acc = acc @ List.map_filter (accept ticker s e) []"
    by simp
  then show ?case by blast
next
  case (Cons tf fs)
  obtain results fault where sr: "search sub ticker tf = (results, fault)"
    by (cases "search sub ticker tf")
  let ?rest = "concat (map (\<lambda>tf. fst (search sub ticker tf)) fs)"
  let ?posts' = "acc @ List.map_filter (accept ticker s e) results"
  from Cons.IH [of ?posts'] obtain qs where
    qs: "subseq qs ?rest"
      "search_loop sub ticker s e fs ?posts' = ?posts' @ List.map_filter (accept ticker s e) qs"
    by blast
  have all: "concat (map (\<lambda>tf. fst (search sub ticker tf)) (tf # fs)) = results @ ?rest"
    using sr by simp
  show ?case
  proof (cases "fault = None \<and> length ?posts' \<ge> 50")
    case True
    then have "search_loop sub ticker s e (tf # fs) acc
                 = acc @ List.map_filter (accept ticker s e) results"
      using sr by (simp add: collect_posts_map_filter)
    moreover have "subseq results (results @ ?rest)"
      by (simp add: prefix_imp_subseq)
    ultimately show ?thesis unfolding all by blast
  next
    case False
    then have "search_loop sub ticker s e (tf # fs) acc
                 = search_loop sub ticker s e fs ?posts'"
      using sr by (auto simp: collect_posts_map_filter Let_def split: option.splits)
    then have "search_loop sub ticker s e (tf # fs) acc
                 = acc @ List.map_filter (accept ticker s e) (results @ qs)"
      using qs(2) by (simp add: map_filter_append)
    moreover have "subseq (results @ qs) (results @ ?rest)"
      using qs(1) by (simp add: subseq_append')
    ultimately show ?thesis unfolding all by blast
  qed
qed

lemma listing_loop_posts:
  "listing_loop ticker s e ls acc = acc @ List.map_filter (accept ticker s e) (concat (map fst ls))"
  by (induction ls arbitrary: acc)
     (auto simp: collect_posts_map_filter map_filter_append)

lemma fetch_from_listings_posts:
  "fetch_from_listings sub ticker s e acc = Inr out \<Longrightarrow>
   out = acc @ List.map_filter (accept ticker s e) (listed sub)"
  by (auto simp: fetch_from_listings_def listing_loop_posts listed_def items_def
           split: sum.splits)

lemma date_range_Inr:
  "date_range n days = Inr (s, e) \<Longrightarrow> e = n \<and> s = n - days * 86400000000"
  by (auto simp: date_range_def timedelta_days_def datetime_sub_def Let_def
           split: if_splits sum.splits)



text \<open>The shape of every frame the social fetcher returns.\<close>

lemma fetch_wsb_posts_shape:
  "fetch_wsb_posts self ticker days = Inr (DataFrame []) \<or>
   (\<exists>sub s qs. reddit self = Some (Inr sub) \<and> date_range (clock self) days = Inr (s, clock self)
      \<and> (subseq qs (searched sub ticker) \<or> qs = listed sub)
      \<and> fetch_wsb_posts self ticker days
          = Inr (DataFrame (List.map_filter (accept ticker s (clock self)) qs)))"
proof (cases "reddit self")
  case None
  then show ?thesis by (simp add: fetch_wsb_posts_def)
next
  case (Some client)
  show ?thesis
  proof (cases "date_range (clock self) days")
    case (Inl err)
    with Some show ?thesis by (simp add: fetch_wsb_posts_def wsb_try_def)
  next
    case (Inr range)
    obtain s e where range: "range = (s, e)" by (cases range)
    with Inr date_range_Inr have e: "e = clock self" by blast
    show ?thesis
    proof (cases client)
      case (Inl err)
      with Some Inr range show ?thesis by (simp add: fetch_wsb_posts_def wsb_try_def)
    next
      case sub: (Inr sub)
      from search_loop_posts [of sub ticker "[''day'', ''week'', ''month'']" s e "[]"]
      obtain qs where qs: "subseq qs (searched sub ticker)"
        "search_loop sub ticker s e [''day'', ''week'', ''month''] []
           = List.map_filter (accept ticker s e) qs"
        by (auto simp: searched_def)
      show ?thesis
      proof (cases "List.map_filter (accept ticker s e) qs = []")
        case False
        with Some Inr range sub qs e show ?thesis
          by (auto simp: fetch_wsb_posts_def wsb_try_def)
      next
        case True
        show ?thesis
        proof (cases "fetch_from_listings sub ticker s e []")
          case (Inl err)
          with True Some Inr range sub qs show ?thesis
            by (simp add: fetch_wsb_posts_def wsb_try_def)
        next
          case out: (Inr out)
          from fetch_from_listings_posts [OF out]
          have "out = List.map_filter (accept ticker s e) (listed sub)" by simp
          with out True Some Inr range sub qs e show ?thesis
            by (auto simp: fetch_wsb_posts_def wsb_try_def)
        qed
      qed
    qed
  qed
qed

lemma fetch_wsb_posts_returns: "\<exists>df. fetch_wsb_posts self ticker days = Inr df"
  by (auto simp: fetch_wsb_posts_def split: option.splits sum.splits)

lemma fetch_wsb_posts_rows:
  assumes "fetch_wsb_posts self ticker days = Inr df" and "r \<in> set (rows df)"
  shows "\<exists>p. process_post ticker (clock self - days * 86400000000) (clock self) p = Inr (Some r)"
proof -
  from fetch_wsb_posts_shape [of self ticker days] assms
  obtain s qs where s: "date_range (clock self) days = Inr (s, clock self)"
    and df: "df = DataFrame (List.map_filter (accept ticker s (clock self)) qs)"
    by (auto simp: rows_DataFrame)
  from date_range_Inr [OF s] have s': "s = clock self - days * 86400000000" by simp
  from assms(2) df obtain p where "accept ticker s (clock self) p = Some r"
    by (auto simp: rows_DataFrame set_map_filter)
  then have "process_post ticker s (clock self) p = Inr (Some r)"
    by (auto simp: accept_def split: sum.splits option.splits)
  with s' show ?thesis by blast
qed

lemma is_in_Nil: "is_in [] s"
  by (induction s) auto

lemma process_post_text:
  assumes "process_post ticker s e p = Inr (Some r)"
  shows "\<exists>t b. map_of r ''text'' = Some (StrC (t @ '' '' @ b))
           \<and> (is_in (upper ticker) (upper t) \<or> is_in (upper ticker) (upper b))"
proof -
  from assms obtain t where t: "title p = Some t"
    and r: "map_of r ''text'' = Some (StrC (t @ '' '' @ str_of (selftext p)))"
    and m: "is_in (upper ticker) (upper t)
            \<or> is_in (upper ticker) (case selftext p of None \<Rightarrow> []
                 | Some b \<Rightarrow> if b \<noteq> [] then upper b else [])"
    by (auto simp: process_post_def Let_def split: sum.splits if_splits option.splits)
  have "is_in (upper ticker) (upper t) \<or> is_in (upper ticker) (upper (str_of (selftext p)))"
  proof (cases "selftext p")
    case None
    with m show ?thesis using is_in_Nil by auto
  next
    case (Some b)
    with m show ?thesis using is_in_Nil by (cases "b = []") (auto simp: str_of_def)
  qed
  with r show ?thesis by blast
qed

lemma process_post_timestamp:
  assumes "process_post ticker s e p = Inr (Some r)"
  shows "\<exists>t. map_of r ''timestamp'' = Some (TimeC t) \<and> s \<le> t \<and> t \<le> e"
  using assms
  by (auto simp: process_post_def Let_def split: sum.splits if_splits option.splits)

lemma accept_url:
  "accept ticker s e p = Some d \<Longrightarrow>
   map_of d ''url'' = Some (StrC (''https://www.reddit.com'' @ permalink p))"
  by (auto simp: accept_def process_post_def Let_def split: sum.splits if_splits option.splits)

lemma urls_map_filter:
  "map (\<lambda>r. map_of r ''url'') (List.map_filter (accept ticker s e) qs)
     = map (\<lambda>p. Some (StrC (''https://www.reddit.com'' @ permalink p)))
         (filter (\<lambda>p. accept ticker s e p \<noteq> None) qs)"
  by (induction qs) (auto simp: accept_url split: option.splits)

lemma distinct_urls:
  assumes "distinct (map permalink qs)"
  shows "distinct (map (\<lambda>r. map_of r ''url'') (List.map_filter (accept ticker s e) qs))"
proof -
  have "distinct (map permalink (filter (\<lambda>p. accept ticker s e p \<noteq> None) qs))"
    using assms by (rule distinct_map_filter)
  then have "distinct (map (\<lambda>p. Some (StrC (''https://www.reddit.com'' @ permalink p)))
                        (filter (\<lambda>p. accept ticker s e p \<noteq> None) qs))"
    by (auto simp: distinct_map inj_on_def)
  then show ?thesis by (simp add: urls_map_filter)
qed


section \<open>Facts about the news fetchers\<close>








lemma news_data_cells:
  "news_data articles = Inr ds \<Longrightarrow>
   map (\<lambda>r. map_of r ''text'') ds
     = map (\<lambda>a. Some (StrC (article_title a @ '' '' @ description a))) articles
   \<and> map (\<lambda>r. map_of r ''timestamp'') ds
     = map (\<lambda>a. case publishedAt a of Inl e \<Rightarrow> None | Inr t \<Rightarrow> Some (TimeC t)) articles"
  by (induction articles arbitrary: ds) (auto split: sum.splits)

lemma news_try_rows:
  assumes "news_try self params = Inr df" and "rows df \<noteq> []"
  shows "\<exists>response articles ds. news_get self params = Inr response
           \<and> response_json response = Inr articles \<and> news_data articles = Inr ds
           \<and> df = DataFrame ds"
  using assms
  by (auto simp: news_try_def rows_DataFrame split: sum.splits if_splits)

lemma fetch_news_api_rows:
  assumes "fetch_news_api self ticker days = Inr df" and "rows df \<noteq> []"
  shows "\<exists>response articles ds.
           news_get self \<lparr>query = ticker @ '' OR '' @ get_company_name ticker,
                          from_day = (now self - days * 86400000000) div 86400000000,
                          to_day = now self div 86400000000,
                          apiKey = str_of (news_api_key self)\<rparr> = Inr response
           \<and> response_json response = Inr articles \<and> news_data articles = Inr ds
           \<and> df = DataFrame ds"
proof -
  let ?params = "\<lparr>query = ticker @ '' OR '' @ get_company_name ticker,
                          from_day = (now self - days * 86400000000) div 86400000000,
                          to_day = now self div 86400000000,
                          apiKey = str_of (news_api_key self)\<rparr>"
  from assms obtain s e where r: "date_range (now self) days = Inr (s, e)"
    by (auto simp: fetch_news_api_def rows_DataFrame split: if_splits sum.splits)
  from date_range_Inr [OF r] have se: "e = now self" "s = now self - days * 86400000000"
    by simp_all
  from assms r se have "news_try self ?params = Inr df"
    by (auto simp: fetch_news_api_def rows_DataFrame split: if_splits sum.splits)
  from news_try_rows [OF this assms(2)] show ?thesis .
qed

section \<open>Facts about the merge\<close>

lemma map_of_filter_common:
  "map_of (filter (\<lambda>kv. fst kv \<in> A \<and> fst kv \<in> B) r) c
     = (if c \<in> A \<and> c \<in> B then map_of r c else None)"
  by (induction r) auto

lemma remdups_append_subset: "set xs \<subseteq> set ys \<Longrightarrow> remdups (xs @ ys) = remdups ys"
  by (induction xs) auto

lemma unique_twice: "unique (unique xs @ unique xs) = unique xs"
  by (simp add: unique_def remdups_append_subset)

lemma combine_nonempty:
  assumes "\<not> empty_df a" and "\<not> empty_df b"
  shows "combine_frames a b =
     Inr \<lparr>columns = unique (filter (\<lambda>c. c \<in> set (columns b)) (columns a)),
          rows = map (filter (\<lambda>kv. fst kv \<in> set (columns a) \<and> fst kv \<in> set (columns b))) (rows a)
                 @ map (filter (\<lambda>kv. fst kv \<in> set (columns a) \<and> fst kv \<in> set (columns b))) (rows b)\<rparr>"
proof -
  let ?common = "unique (filter (\<lambda>c. c \<in> set (columns b)) (columns a))"
  have s: "set ?common = set (columns a) \<inter> set (columns b)"
    by (auto simp: unique_def)
  have f: "(\<lambda>kv. fst kv \<in> set ?common)
             = (\<lambda>kv. fst kv \<in> set (columns a) \<and> fst kv \<in> set (columns b))"
    by (auto simp: unique_def)
  have u: "unique (?common @ ?common) = ?common"
    by (rule unique_twice)
  from s have pa: "project a ?common
      = Inr \<lparr>columns = ?common,
             rows = map (filter (\<lambda>kv. fst kv \<in> set (columns a) \<and> fst kv \<in> set (columns b))) (rows a)\<rparr>"
    unfolding project_def f by simp
  from s have pb: "project b ?common
      = Inr \<lparr>columns = ?common,
             rows = map (filter (\<lambda>kv. fst kv \<in> set (columns a) \<and> fst kv \<in> set (columns b))) (rows b)\<rparr>"
    unfolding project_def f by simp
  show ?thesis
    unfolding combine_frames_def using assms
    by (simp add: pa pb Let_def pd_concat_def u)
qed

lemma all_sources_empty:
  assumes "fetch_wsb_posts w ticker days = Inr a" and "empty_df a"
    and "get_institutional_sentiment f ticker days = Inr b" and "empty_df b"
  shows "fetch_all_sentiment_data w f sentiment_analyzer ticker days = Inr (DataFrame [])"
  using assms
  by (simp add: fetch_all_sentiment_data_def tag_wsb_def tag_institutional_def
        combine_frames_def empty_DataFrame_Nil)

section \<open>The fetchers on the concrete inputs\<close>

lemma range7: "date_range 64000000000000000 7 = Inr (63999395200000000, 64000000000000000)"
  by (simp add: date_range_def timedelta_days_def datetime_sub_def datetime_max_def)

lemma pp_a: "process_post ''AAPL'' 63999395200000000 64000000000000000 post_a = Inr (Some row_a)"
  by (simp add: process_post_def post_a_def row_a_def fromtimestamp_def datetime_max_def
        upper_def upper_char_def str_of_def)

lemma pp_b: "process_post ''AAPL'' 63999395200000000 64000000000000000 post_b = Inr None"
  by (simp add: process_post_def post_b_def fromtimestamp_def datetime_max_def
        upper_def upper_char_def str_of_def)

lemma pp_c: "process_post ''AAPL'' 63999395200000000 64000000000000000 post_c = Inr (Some row_c)"
  by (simp add: process_post_def post_c_def row_c_def fromtimestamp_def datetime_max_def
        upper_def upper_char_def str_of_def)

lemma day_fetch: "fetch_wsb_posts day_fetcher ''AAPL'' 7 = Inr (DataFrame [row_a, row_c])"
  by (simp add: fetch_wsb_posts_def wsb_try_def day_fetcher_def range7 pp_a pp_b pp_c)

lemma overlap_fetch:
  "fetch_wsb_posts overlap_fetcher ''AAPL'' 7 = Inr (DataFrame [row_a, row_a, row_c])"
  by (simp add: fetch_wsb_posts_def wsb_try_def overlap_fetcher_def range7 pp_a pp_b pp_c)


lemma news_fetch: "fetch_news_api news_fetcher ''AAPL'' 7 = Inr (DataFrame [news_row])"
  by (simp add: fetch_news_api_def news_fetcher_def range7 news_try_def get_company_name_def
        str_of_def early_article_def news_row_def)



lemma point4_scored:
  "scored point4_frame" "rows point4_frame \<noteq> []"
  "\<forall>r\<in>set (rows point4_frame). map_of r ''source'' = Some (StrC ''Financial News'')"
  by (simp_all add: scored_def point4_frame_def)

lemma point4_net:
  "spec_net64 point4_frame (Some (StrC ''Financial News'')) = 3602879701896397 / 9007199254740992"
proof -
  have p: "spec_group_values point4_frame (Some (StrC ''Financial News'')) ''positive''
             = [3602879701896397 / 9007199254740992]"
    by (simp add: spec_group_values_def point4_frame_def)
  have n: "spec_group_values point4_frame (Some (StrC ''Financial News'')) ''negative'' = [0]"
    by (simp add: spec_group_values_def point4_frame_def)
  have mp: "mean64 [3602879701896397 / 9007199254740992] = 3602879701896397 / 9007199254740992"
    by (simp add: mean64_def sum64_def double_p4)
  have mn: "mean64 [0] = 0"
    by (simp add: mean64_def sum64_def double_zero)
  show ?thesis
    unfolding spec_net64_def p n mp mn by (simp add: double_p4)
qed

lemma point4_index:
  "calculate_weighted_sentiment_f64 point4_frame = Inr (7205759403792793 / 18014398509481984)"
proof -
  have w: "spec_weight (Some (StrC ''Financial News'')) = 7 / 10"
    by (simp add: spec_weight_def)
  from single_source_f64(2) [OF point4_scored]
  show ?thesis
    by (simp only: w point4_net double_7_10 double_p4_times_w7 add_0 double_prod double_w7
          double_prod_by_w7)
qed


lemma get_institutional_offline:
  "get_institutional_sentiment offline_fetcher ''AAPL'' 7 = Inr (DataFrame [])"
  by (simp add: get_institutional_sentiment_def fetch_alpha_vantage_news_def
        fetch_news_api_def offline_fetcher_def empty_DataFrame_Nil)

lemma common_cols_example:
  "unique (filter (\<lambda>c. c \<in> set (columns press_frame)) (columns social_frame))
     = [''text'', ''source'', ''negative'', ''positive'']"
  by (simp add: social_frame_def press_frame_def unique_def)

lemma combine_example: "combine_frames social_frame press_frame = Inr merged_frame"
proof -
  have e: "\<not> empty_df social_frame" "\<not> empty_df press_frame"
    by (simp_all add: empty_df_def social_frame_def press_frame_def)
  have p1: "project social_frame [''text'', ''source'', ''negative'', ''positive'']
    = Inr \<lparr>columns = [''text'', ''source'', ''negative'', ''positive''],
           rows = [[(''text'', StrC ''AAPL to the moon''), (''source'', StrC ''WallStreetBets''),
                    (''negative'', FloatC (1 / 10)), (''positive'', FloatC (8 / 10))]]\<rparr>"
    by (simp add: project_def social_frame_def)
  have p2: "project press_frame [''text'', ''source'', ''negative'', ''positive'']
    = Inr \<lparr>columns = [''text'', ''source'', ''negative'', ''positive''],
           rows = [[(''text'', StrC ''Apple beats estimates''), (''source'', StrC ''Financial News''),
                    (''negative'', FloatC (2 / 10)), (''positive'', FloatC (6 / 10))],
                   [(''text'', StrC ''Apple faces probe''), (''source'', StrC ''Financial News''),
                    (''negative'', FloatC (7 / 10)), (''positive'', FloatC (1 / 10))]]\<rparr>"
    by (simp add: project_def press_frame_def)
  show ?thesis
    unfolding combine_frames_def common_cols_example Let_def
    by (simp add: e p1 p2 pd_concat_def unique_def merged_frame_def)
qed

section \<open>The properties\<close>

subsection \<open>C1: the weighted index is the weighted mean of the per-source nets\<close>

text \<open>
  Claim C1. On every scored collection the value \<open>calculate_weighted_sentiment\<close> returns
  is the index of the specification: the sum over the source groups present of
  \<open>net_s * w_s\<close>, divided by the sum of the \<open>w_s\<close>, with weight 0.7 for
  \<open>Financial News\<close>, 0.3 for \<open>WallStreetBets\<close> and 0.5 for any other source (and 0
  when there is no group). In particular, when the groups are these two with nets 0.6
  and -0.2, the index is 0.36. The scores need not lie in \<open>[0, 1]\<close> for this.
\<close>

theorem weighted_index_formula:
  assumes "scored df"
  shows "calculate_weighted_sentiment df = Inr (spec_index df)
    \<and> (spec_sources df = {Some (StrC ''Financial News''), Some (StrC ''WallStreetBets'')}
         \<and> spec_net df (Some (StrC ''Financial News'')) = 6 / 10
         \<and> spec_net df (Some (StrC ''WallStreetBets'')) = - (2 / 10)
       \<longrightarrow> calculate_weighted_sentiment df = Inr (36 / 100))"
proof -
  have main: "calculate_weighted_sentiment df = Inr (spec_index df)"
  proof (cases "rows df = []")
    case True
    then show ?thesis
      by (simp add: calculate_weighted_sentiment_def empty_df_def spec_index_def spec_sources_def)
  next
    case False
    then have "spec_sources df \<noteq> {}" by (simp add: spec_sources_def)
    with calculate_scored [OF assms False] show ?thesis by (simp add: spec_index_def)
  qed
  have "spec_index df = 36 / 100"
    if "spec_sources df = {Some (StrC ''Financial News''), Some (StrC ''WallStreetBets'')}"
      and "spec_net df (Some (StrC ''Financial News'')) = 6 / 10"
      and "spec_net df (Some (StrC ''WallStreetBets'')) = - (2 / 10)"
    using that by (simp add: spec_index_def spec_weight_def)
  with main show ?thesis by simp
qed

text \<open>Three records, two sources, nets 0.6 and -0.2: the index is 0.36.\<close>

theorem weighted_index_formula_witness:
  "scored two_group_frame \<and> calculate_weighted_sentiment two_group_frame = Inr (36 / 100)"
proof -
  have s: "scored two_group_frame" by (simp add: scored_def two_group_frame_def)
  have src: "spec_sources two_group_frame = {Some (StrC ''Financial News''), Some (StrC ''WallStreetBets'')}"
    by (auto simp: spec_sources_def two_group_frame_def)
  have n1: "spec_net two_group_frame (Some (StrC ''Financial News'')) = 6 / 10"
    by (simp add: spec_net_def spec_group_values_def mean_def two_group_frame_def)
  have n2: "spec_net two_group_frame (Some (StrC ''WallStreetBets'')) = - (2 / 10)"
    by (simp add: spec_net_def spec_group_values_def mean_def two_group_frame_def)
  from weighted_index_formula [OF s] src n1 n2
  have "calculate_weighted_sentiment two_group_frame = Inr (36 / 100)" by blast
  with s show ?thesis by blast
qed

subsection \<open>C2: the index is bounded\<close>

text \<open>
  Claim C2. On every non-empty scored collection whose positive and negative scores lie
  in \<open>[0, 1]\<close>, \<open>calculate_weighted_sentiment\<close> returns a value in \<open>[-1, 1]\<close>.
\<close>

theorem weighted_index_bounded:
  assumes "scored df" and "unit_scores df" and "rows df \<noteq> []"
  shows "\<exists>x. calculate_weighted_sentiment df = Inr x \<and> - 1 \<le> x \<and> x \<le> 1"
proof -
  have "finite (spec_sources df)" "spec_sources df \<noteq> {}" using assms(3) by (simp_all add: spec_sources_def)
  then have "- 1 \<le> (\<Sum>s\<in>spec_sources df. spec_net df s * spec_weight s) / (\<Sum>s\<in>spec_sources df. spec_weight s)
      \<and> (\<Sum>s\<in>spec_sources df. spec_net df s * spec_weight s) / (\<Sum>s\<in>spec_sources df. spec_weight s) \<le> 1"
    by (rule weighted_average_unit) (simp_all add: net_unit [OF assms(2)] spec_weight_pos)
  with calculate_scored [OF assms(1) assms(3)] show ?thesis by simp
qed

theorem weighted_index_bounded_witness:
  "scored two_group_frame \<and> unit_scores two_group_frame \<and> rows two_group_frame \<noteq> []
   \<and> (\<exists>x. calculate_weighted_sentiment two_group_frame = Inr x \<and> - 1 \<le> x \<and> x \<le> 1)"
proof -
  have s: "scored two_group_frame" by (simp add: scored_def two_group_frame_def)
  have u: "unit_scores two_group_frame" by (simp add: unit_scores_def two_group_frame_def)
  have r: "rows two_group_frame \<noteq> []" by (simp add: two_group_frame_def)
  from weighted_index_bounded [OF s u r] s u r show ?thesis by blast
qed

subsection \<open>C3: duplicates within the social source\<close>

text \<open>
  Claim C3 says that the output of \<open>fetch_wsb_posts\<close> never holds two entries with the
  same url. The fetcher has no step that removes duplicates: a post of the last day that
  the week search returns again is appended again.
\<close>

theorem wsb_duplicate_urls:
  "fetch_wsb_posts overlap_fetcher ''AAPL'' 7 = Inr (DataFrame [row_a, row_a, row_c])
   \<and> map (\<lambda>r. map_of r ''url'') (rows (DataFrame [row_a, row_a, row_c]))
       = [Some (StrC ''https://www.reddit.com/r/wallstreetbets/comments/a1/''),
          Some (StrC ''https://www.reddit.com/r/wallstreetbets/comments/a1/''),
          Some (StrC ''https://www.reddit.com/r/wallstreetbets/comments/c3/'')]
   \<and> \<not> distinct (map (\<lambda>r. map_of r ''url'') (rows (DataFrame [row_a, row_a, row_c])))"
  by (simp add: overlap_fetch rows_DataFrame row_a_def row_c_def)

text \<open>
  Claim C3, amended. When no permalink is yielded twice by the day, week and month
  searches, nor twice by the hot, new and top listings, \<open>fetch_wsb_posts\<close> returns a
  frame whose urls are pairwise different.
\<close>

theorem wsb_urls_distinct:
  assumes "upstream_distinct self ticker"
  shows "\<exists>df. fetch_wsb_posts self ticker days = Inr df
           \<and> distinct (map (\<lambda>r. map_of r ''url'') (rows df))"
proof -
  from fetch_wsb_posts_shape [of self ticker days]
  show ?thesis
  proof
    assume "fetch_wsb_posts self ticker days = Inr (DataFrame [])"
    then show ?thesis by (simp add: rows_DataFrame)
  next
    assume "\<exists>sub s qs. reddit self = Some (Inr sub)
        \<and> date_range (clock self) days = Inr (s, clock self)
        \<and> (subseq qs (searched sub ticker) \<or> qs = listed sub)
        \<and> fetch_wsb_posts self ticker days
            = Inr (DataFrame (List.map_filter (accept ticker s (clock self)) qs))"
    then obtain sub s qs where sub: "reddit self = Some (Inr sub)"
      and qs: "subseq qs (searched sub ticker) \<or> qs = listed sub"
      and df: "fetch_wsb_posts self ticker days
                 = Inr (DataFrame (List.map_filter (accept ticker s (clock self)) qs))"
      by blast
    from assms sub have d: "distinct (map permalink (searched sub ticker))"
      "distinct (map permalink (listed sub))"
      by (simp_all add: upstream_distinct_def)
    have "distinct (map permalink qs)"
    proof (cases "qs = listed sub")
      case True
      with d(2) show ?thesis by simp
    next
      case False
      with qs have "subseq (map permalink qs) (map permalink (searched sub ticker))"
        by (simp add: subseq_map)
      then show ?thesis using d(1) by (rule subseq_distinct)
    qed
    then have "distinct (map (\<lambda>r. map_of r ''url'')
                 (List.map_filter (accept ticker s (clock self)) qs))"
      by (rule distinct_urls)
    with df show ?thesis by (simp add: rows_DataFrame)
  qed
qed

theorem wsb_urls_distinct_witness:
  "upstream_distinct day_fetcher ''AAPL''
   \<and> fetch_wsb_posts day_fetcher ''AAPL'' 7 = Inr (DataFrame [row_a, row_c])
   \<and> distinct (map (\<lambda>r. map_of r ''url'') (rows (DataFrame [row_a, row_c])))"
proof -
  have u: "upstream_distinct day_fetcher ''AAPL''"
    by (simp add: upstream_distinct_def day_fetcher_def searched_def listed_def items_def
          post_a_def post_b_def post_c_def)
  from wsb_urls_distinct [OF u, of 7] day_fetch u show ?thesis by auto
qed

subsection \<open>C4: the ticker occurs in every item\<close>

text \<open>
  Claim C4 says that every item any adapter returns names the ticker, whatever the case,
  in its title or body. \<open>fetch_news_api\<close> searches for the ticker or the company name
  and returns what the search gives: an article that names only the company is returned.
\<close>

theorem news_item_without_ticker:
  "fetch_news_api news_fetcher ''AAPL'' 7 = Inr (DataFrame [news_row])
   \<and> map_of news_row ''text''
       = Some (StrC ''Apple unveils new iPhone Cupertino event draws crowds'')
   \<and> \<not> is_in (upper ''AAPL'') (upper ''Apple unveils new iPhone'')
   \<and> \<not> is_in (upper ''AAPL'') (upper ''Cupertino event draws crowds'')
   \<and> \<not> is_in (upper ''AAPL'') (upper ''Apple unveils new iPhone Cupertino event draws crowds'')"
  by (simp add: news_fetch news_row_def upper_def upper_char_def)

text \<open>
  Claim C4, amended. Every item \<open>fetch_wsb_posts\<close> returns has a text made of a title
  and a body of which one contains the upper-cased ticker once upper-cased.
  \<open>fetch_news_api\<close>, when it returns rows, returns one per article of the response to
  the query \<open>ticker OR company name\<close>, with the title and the description as the text
  and no test on them.
\<close>

theorem items_mention_ticker:
  "(\<exists>df. fetch_wsb_posts self ticker days = Inr df
      \<and> (\<forall>r\<in>set (rows df). \<exists>t b. map_of r ''text'' = Some (StrC (t @ '' '' @ b))
            \<and> (is_in (upper ticker) (upper t) \<or> is_in (upper ticker) (upper b))))
   \<and> (fetch_news_api f ticker days = Inr ndf \<and> rows ndf \<noteq> []
        \<longrightarrow> (\<exists>params response articles.
               query params = ticker @ '' OR '' @ get_company_name ticker
               \<and> news_get f params = Inr response \<and> response_json response = Inr articles
               \<and> map (\<lambda>r. map_of r ''text'') (rows ndf)
                   = map (\<lambda>a. Some (StrC (article_title a @ '' '' @ description a))) articles))"
proof -
  obtain df where df: "fetch_wsb_posts self ticker days = Inr df"
    using fetch_wsb_posts_returns by blast
  have "\<exists>t b. map_of r ''text'' = Some (StrC (t @ '' '' @ b))
           \<and> (is_in (upper ticker) (upper t) \<or> is_in (upper ticker) (upper b))"
    if "r \<in> set (rows df)" for r
    using fetch_wsb_posts_rows [OF df that] process_post_text by blast
  with df have 1: "\<exists>df. fetch_wsb_posts self ticker days = Inr df
      \<and> (\<forall>r\<in>set (rows df). \<exists>t b. map_of r ''text'' = Some (StrC (t @ '' '' @ b))
            \<and> (is_in (upper ticker) (upper t) \<or> is_in (upper ticker) (upper b)))"
    by blast
  have 2: "\<exists>params response articles.
               query params = ticker @ '' OR '' @ get_company_name ticker
               \<and> news_get f params = Inr response \<and> response_json response = Inr articles
               \<and> map (\<lambda>r. map_of r ''text'') (rows ndf)
                   = map (\<lambda>a. Some (StrC (article_title a @ '' '' @ description a))) articles"
    if h: "fetch_news_api f ticker days = Inr ndf \<and> rows ndf \<noteq> []"
  proof -
    let ?params = "\<lparr>query = ticker @ '' OR '' @ get_company_name ticker,
                          from_day = (now f - days * 86400000000) div 86400000000,
                          to_day = now f div 86400000000,
                          apiKey = str_of (news_api_key f)\<rparr>"
    from h fetch_news_api_rows [of f ticker days ndf]
    obtain response articles ds where g: "news_get f ?params = Inr response"
      and j: "response_json response = Inr articles" and d: "news_data articles = Inr ds"
      and n: "ndf = DataFrame ds"
      by blast
    from news_data_cells [OF d] n
    have "map (\<lambda>r. map_of r ''text'') (rows ndf)
            = map (\<lambda>a. Some (StrC (article_title a @ '' '' @ description a))) articles"
      by (simp add: rows_DataFrame)
    moreover have "query ?params = ticker @ '' OR '' @ get_company_name ticker" by simp
    ultimately show ?thesis using g j by blast
  qed
  from 1 2 show ?thesis by blast
qed

theorem items_mention_ticker_witness:
  "fetch_wsb_posts day_fetcher ''AAPL'' 7 = Inr (DataFrame [row_a, row_c])
   \<and> (\<exists>t b. map_of row_a ''text'' = Some (StrC (t @ '' '' @ b))
          \<and> (is_in (upper ''AAPL'') (upper t) \<or> is_in (upper ''AAPL'') (upper b)))
   \<and> (\<exists>t b. map_of row_c ''text'' = Some (StrC (t @ '' '' @ b))
          \<and> (is_in (upper ''AAPL'') (upper t) \<or> is_in (upper ''AAPL'') (upper b)))
   \<and> fetch_news_api news_fetcher ''AAPL'' 7 = Inr (DataFrame [news_row])
   \<and> rows (DataFrame [news_row]) \<noteq> []
   \<and> (\<exists>params response articles.
         query params = ''AAPL'' @ '' OR '' @ get_company_name ''AAPL''
         \<and> news_get news_fetcher params = Inr response \<and> response_json response = Inr articles
         \<and> map (\<lambda>r. map_of r ''text'') (rows (DataFrame [news_row]))
             = map (\<lambda>a. Some (StrC (article_title a @ '' '' @ description a))) articles)"
proof -
  note t = items_mention_ticker [where self = day_fetcher and ticker = "''AAPL''" and days = 7
      and f = news_fetcher and ndf = "DataFrame [news_row]"]
  have n: "rows (DataFrame [news_row]) \<noteq> []" by (simp add: rows_DataFrame)
  from t day_fetch
  have 1: "(\<exists>t b. map_of row_a ''text'' = Some (StrC (t @ '' '' @ b))
          \<and> (is_in (upper ''AAPL'') (upper t) \<or> is_in (upper ''AAPL'') (upper b)))
   \<and> (\<exists>t b. map_of row_c ''text'' = Some (StrC (t @ '' '' @ b))
          \<and> (is_in (upper ''AAPL'') (upper t) \<or> is_in (upper ''AAPL'') (upper b)))"
    by (simp add: rows_DataFrame)
  from t news_fetch n
  have 2: "\<exists>params response articles.
         query params = ''AAPL'' @ '' OR '' @ get_company_name ''AAPL''
         \<and> news_get news_fetcher params = Inr response \<and> response_json response = Inr articles
         \<and> map (\<lambda>r. map_of r ''text'') (rows (DataFrame [news_row]))
             = map (\<lambda>a. Some (StrC (article_title a @ '' '' @ description a))) articles"
    by blast
  from 1 2 day_fetch news_fetch n show ?thesis by blast
qed

subsection \<open>C5: every item lies in the time window\<close>

text \<open>
  Claim C5 says that every item any adapter returns lies in \<open>[now - days, now]\<close>.
  \<open>fetch_news_api\<close> gives the window to the upstream query as two dates and does not
  look at the timestamps it gets back: an article of the first day of the window,
  published before the hour of \<open>now\<close>, matches the dates and is returned.
\<close>

theorem news_item_outside_window:
  "fetch_news_api news_fetcher ''AAPL'' 7 = Inr (DataFrame [news_row])
   \<and> map_of news_row ''timestamp'' = Some (TimeC 63999352800000000)
   \<and> now news_fetcher - 7 * 86400000000 = 63999395200000000
   \<and> \<not> (now news_fetcher - 7 * 86400000000 \<le> 63999352800000000)"
proof -
  have n: "now news_fetcher = 64000000000000000" by (simp add: news_fetcher_def)
  show ?thesis by (simp add: news_fetch news_row_def n)
qed

text \<open>
  Claim C5, amended. Every item \<open>fetch_wsb_posts\<close> returns has a timestamp in
  \<open>[now - days, now]\<close>, \<open>now\<close> being the clock the call reads. \<open>fetch_news_api\<close>, when
  it returns rows, queries with the days of \<open>now - days\<close> and of \<open>now\<close> and returns one
  row per article of the response, with the timestamp the article carries.
\<close>

theorem items_in_window:
  "(\<exists>df. fetch_wsb_posts self ticker days = Inr df
      \<and> (\<forall>r\<in>set (rows df). \<exists>t. map_of r ''timestamp'' = Some (TimeC t)
            \<and> clock self - days * 86400000000 \<le> t \<and> t \<le> clock self))
   \<and> (fetch_news_api f ticker days = Inr ndf \<and> rows ndf \<noteq> []
        \<longrightarrow> (\<exists>params response articles.
               from_day params = (now f - days * 86400000000) div 86400000000
               \<and> to_day params = now f div 86400000000
               \<and> news_get f params = Inr response \<and> response_json response = Inr articles
               \<and> map (\<lambda>r. map_of r ''timestamp'') (rows ndf)
                   = map (\<lambda>a. case publishedAt a of Inl e \<Rightarrow> None | Inr t \<Rightarrow> Some (TimeC t))
                       articles))"
proof -
  obtain df where df: "fetch_wsb_posts self ticker days = Inr df"
    using fetch_wsb_posts_returns by blast
  have "\<exists>t. map_of r ''timestamp'' = Some (TimeC t)
           \<and> clock self - days * 86400000000 \<le> t \<and> t \<le> clock self"
    if "r \<in> set (rows df)" for r
    using fetch_wsb_posts_rows [OF df that] process_post_timestamp by blast
  with df have 1: "\<exists>df. fetch_wsb_posts self ticker days = Inr df
      \<and> (\<forall>r\<in>set (rows df). \<exists>t. map_of r ''timestamp'' = Some (TimeC t)
            \<and> clock self - days * 86400000000 \<le> t \<and> t \<le> clock self)"
    by blast
  have 2: "\<exists>params response articles.
               from_day params = (now f - days * 86400000000) div 86400000000
               \<and> to_day params = now f div 86400000000
               \<and> news_get f params = Inr response \<and> response_json response = Inr articles
               \<and> map (\<lambda>r. map_of r ''timestamp'') (rows ndf)
                   = map (\<lambda>a. case publishedAt a of Inl e \<Rightarrow> None | Inr t \<Rightarrow> Some (TimeC t))
                       articles"
    if h: "fetch_news_api f ticker days = Inr ndf \<and> rows ndf \<noteq> []"
  proof -
    let ?params = "\<lparr>query = ticker @ '' OR '' @ get_company_name ticker,
                          from_day = (now f - days * 86400000000) div 86400000000,
                          to_day = now f div 86400000000,
                          apiKey = str_of (news_api_key f)\<rparr>"
    from h fetch_news_api_rows [of f ticker days ndf]
    obtain response articles ds where g: "news_get f ?params = Inr response"
      and j: "response_json response = Inr articles" and d: "news_data articles = Inr ds"
      and n: "ndf = DataFrame ds"
      by blast
    from news_data_cells [OF d] n
    have "map (\<lambda>r. map_of r ''timestamp'') (rows ndf)
            = map (\<lambda>a. case publishedAt a of Inl e \<Rightarrow> None | Inr t \<Rightarrow> Some (TimeC t)) articles"
      by (simp add: rows_DataFrame)
    moreover have "from_day ?params = (now f - days * 86400000000) div 86400000000"
      "to_day ?params = now f div 86400000000" by simp_all
    ultimately show ?thesis using g j by blast
  qed
  from 1 2 show ?thesis by blast
qed

theorem items_in_window_witness:
  "fetch_wsb_posts day_fetcher ''AAPL'' 7 = Inr (DataFrame [row_a, row_c])
   \<and> (\<exists>t. map_of row_a ''timestamp'' = Some (TimeC t)
          \<and> clock day_fetcher - 7 * 86400000000 \<le> t \<and> t \<le> clock day_fetcher)
   \<and> (\<exists>t. map_of row_c ''timestamp'' = Some (TimeC t)
          \<and> clock day_fetcher - 7 * 86400000000 \<le> t \<and> t \<le> clock day_fetcher)
   \<and> fetch_news_api news_fetcher ''AAPL'' 7 = Inr (DataFrame [news_row])
   \<and> rows (DataFrame [news_row]) \<noteq> []
   \<and> (\<exists>params response articles.
         from_day params = (now news_fetcher - 7 * 86400000000) div 86400000000
         \<and> to_day params = now news_fetcher div 86400000000
         \<and> news_get news_fetcher params = Inr response \<and> response_json response = Inr articles
         \<and> map (\<lambda>r. map_of r ''timestamp'') (rows (DataFrame [news_row]))
             = map (\<lambda>a. case publishedAt a of Inl e \<Rightarrow> None | Inr t \<Rightarrow> Some (TimeC t))
                 articles)"
proof -
  note t = items_in_window [where self = day_fetcher and ticker = "''AAPL''" and days = 7
      and f = news_fetcher and ndf = "DataFrame [news_row]"]
  have n: "rows (DataFrame [news_row]) \<noteq> []" by (simp add: rows_DataFrame)
  from t day_fetch
  have 1: "(\<exists>t. map_of row_a ''timestamp'' = Some (TimeC t)
          \<and> clock day_fetcher - 7 * 86400000000 \<le> t \<and> t \<le> clock day_fetcher)
   \<and> (\<exists>t. map_of row_c ''timestamp'' = Some (TimeC t)
          \<and> clock day_fetcher - 7 * 86400000000 \<le> t \<and> t \<le> clock day_fetcher)"
    by (simp add: rows_DataFrame)
  from t news_fetch n
  have 2: "\<exists>params response articles.
         from_day params = (now news_fetcher - 7 * 86400000000) div 86400000000
         \<and> to_day params = now news_fetcher div 86400000000
         \<and> news_get news_fetcher params = Inr response \<and> response_json response = Inr articles
         \<and> map (\<lambda>r. map_of r ''timestamp'') (rows (DataFrame [news_row]))
             = map (\<lambda>a. case publishedAt a of Inl e \<Rightarrow> None | Inr t \<Rightarrow> Some (TimeC t))
                 articles"
    by blast
  from 1 2 day_fetch news_fetch n show ?thesis by blast
qed

subsection \<open>C6: a fetch does not raise\<close>




subsection \<open>C7: a single source\<close>

text \<open>
  Claim C7 says that on a collection of a single source the index equals \<open>net_s\<close>
  exactly, and \<open>0.4\<close> for a news-only collection of net \<open>0.4\<close>. The program computes
  the product \<open>net_s * w_s\<close> and its quotient by \<open>w_s\<close> in doubles, and the two roundings
  do not cancel: one news record with positive score \<open>0.4\<close> and negative score \<open>0\<close> has
  net \<open>0.4\<close> and index \<open>0.39999999999999997\<close>, the double 7205759403792793 / 2 ^ 54.
\<close>

theorem single_source_not_exact:
  "scored point4_frame \<and> rows point4_frame \<noteq> []
   \<and> list_all (\<lambda>r. map_of r ''source'' = Some (StrC ''Financial News'')) (rows point4_frame)
   \<and> double (4 / 10) = 3602879701896397 / 9007199254740992
   \<and> spec_net64 point4_frame (Some (StrC ''Financial News''))
       = 3602879701896397 / 9007199254740992
   \<and> calculate_weighted_sentiment_f64 point4_frame
       = Inr (7205759403792793 / 18014398509481984)
   \<and> calculate_weighted_sentiment_f64 point4_frame
       \<noteq> Inr (spec_net64 point4_frame (Some (StrC ''Financial News'')))"
proof -
  have l: "list_all (\<lambda>r. map_of r ''source'' = Some (StrC ''Financial News''))
             (rows point4_frame)"
    using point4_scored(3) by (simp add: list_all_iff)
  have ne: "calculate_weighted_sentiment_f64 point4_frame
       \<noteq> Inr (spec_net64 point4_frame (Some (StrC ''Financial News'')))"
    by (simp add: point4_index point4_net)
  from point4_scored(1,2) l double_4_10 point4_net point4_index ne show ?thesis by blast
qed

text \<open>
  Claim C7, amended. On every non-empty scored collection whose records all carry the
  same source tag \<open>s\<close>, the index is computed from that source alone: it is the quotient
  \<open>(0 + net_s * w_s) / (0 + w_s)\<close> with the product, the two additions and the division
  each rounded to a double. Without the roundings this quotient is \<open>net_s\<close>. The total
  weight the loop divides by is the weight of \<open>s\<close> alone, so a source that is absent adds
  nothing to the denominator.
\<close>

theorem single_source_index:
  assumes "scored df" and "rows df \<noteq> []"
    and "\<forall>r\<in>set (rows df). map_of r ''source'' = s"
  shows "calculate_weighted_sentiment_f64 df
           = Inr (double (double (0 + double (spec_net64 df s * double (spec_weight s)))
                          / double (0 + double (spec_weight s))))
    \<and> (0 + spec_net64 df s * double (spec_weight s)) / (0 + double (spec_weight s))
        = spec_net64 df s
    \<and> (\<exists>ss. source_sentiments_f64 df (unique (map (\<lambda>r. map_of r ''source'') (rows df)))
               = Inr ss
           \<and> snd (weighted_loop_f64 ss (0, 0)) = double (0 + double (spec_weight s)))
    \<and> (\<exists>ss. source_sentiments df (unique (map (\<lambda>r. map_of r ''source'') (rows df))) = Inr ss
           \<and> snd (weighted_loop ss (0, 0)) = spec_weight s)"
proof -
  note f64 = single_source_f64 [OF assms]
  have "0 < double (spec_weight s)" using double_weight [of s] by simp
  then have q: "(0 + spec_net64 df s * double (spec_weight s)) / (0 + double (spec_weight s))
                  = spec_net64 df s"
    by simp
  have t64: "snd (weighted_loop_f64 [(s, spec_net64 df s)] (0, 0))
               = double (0 + double (spec_weight s))"
    by (simp add: weights_get_spec Let_def)
  have src: "spec_sources df = {s}"
    using assms(2,3) by (cases "rows df") (auto simp: spec_sources_def)
  let ?srcs = "unique (map (\<lambda>r. map_of r ''source'') (rows df))"
  have "distinct ?srcs" by (rule distinct_unique)
  moreover have "set ?srcs = {s}" using src by (simp add: set_unique spec_sources_def)
  ultimately have "(\<Sum>x\<leftarrow>?srcs. spec_weight x) = spec_weight s"
    using sum_list_distinct_conv_sum_set [of ?srcs spec_weight] by simp
  then have "snd (weighted_loop (map (\<lambda>x. (x, spec_net df x)) ?srcs) (0, 0)) = spec_weight s"
    by (simp add: weighted_loop_net)
  with source_sentiments_net [OF assms(1), of ?srcs]
  have t: "\<exists>ss. source_sentiments df ?srcs = Inr ss \<and> snd (weighted_loop ss (0, 0)) = spec_weight s"
    by simp
  from f64 q t64 t show ?thesis by blast
qed

text \<open>
  One news record of net \<open>0.4\<close>: the index is the rounded quotient, which is
  \<open>0.39999999999999997\<close>, and the denominator is the double of 0.7, the weight of the news
  source alone.
\<close>

theorem single_source_index_witness:
  "scored point4_frame \<and> rows point4_frame \<noteq> []
   \<and> list_all (\<lambda>r. map_of r ''source'' = Some (StrC ''Financial News'')) (rows point4_frame)
   \<and> calculate_weighted_sentiment_f64 point4_frame
       = Inr (double (double (0 + double (spec_net64 point4_frame (Some (StrC ''Financial News''))
                                          * double (7 / 10)))
                      / double (0 + double (7 / 10))))
   \<and> calculate_weighted_sentiment_f64 point4_frame
       = Inr (7205759403792793 / 18014398509481984)
   \<and> (\<exists>ss. source_sentiments_f64 point4_frame
               (unique (map (\<lambda>r. map_of r ''source'') (rows point4_frame))) = Inr ss
           \<and> snd (weighted_loop_f64 ss (0, 0)) = double (0 + double (7 / 10)))
   \<and> double (0 + double (7 / 10)) = 3152519739159347 / 4503599627370496
   \<and> (\<exists>ss. source_sentiments point4_frame
               (unique (map (\<lambda>r. map_of r ''source'') (rows point4_frame))) = Inr ss
           \<and> snd (weighted_loop ss (0, 0)) = 7 / 10)"
proof -
  have l: "list_all (\<lambda>r. map_of r ''source'' = Some (StrC ''Financial News''))
             (rows point4_frame)"
    using point4_scored(3) by (simp add: list_all_iff)
  have w: "spec_weight (Some (StrC ''Financial News'')) = 7 / 10"
    by (simp add: spec_weight_def)
  have d: "double (0 + double (7 / 10)) = 3152519739159347 / 4503599627370496"
    by (simp only: add_0 double_7_10 double_w7)
  note t = single_source_index [OF point4_scored, unfolded w]
  from t point4_scored(1,2) l d point4_index show ?thesis by blast
qed

subsection \<open>C8: the empty collection\<close>

text \<open>
  Claim C8. On an empty collection (no rows, or no columns, as \<open>pd.DataFrame()\<close>)
  \<open>calculate_weighted_sentiment\<close> returns 0.0: it returns before it reads any column,
  so it does not raise. When both sources are empty the merge is the empty frame, on
  which the index is 0.0, and \<open>fetch_all_sentiment_data\<close> returns that empty frame.
\<close>

theorem empty_index:
  "(empty_df df \<longrightarrow> calculate_weighted_sentiment df = Inr 0)
   \<and> (empty_df a \<and> empty_df b
        \<longrightarrow> (\<exists>c. combine_frames a b = Inr c \<and> empty_df c
                 \<and> calculate_weighted_sentiment c = Inr 0))
   \<and> (fetch_wsb_posts w ticker days = Inr a \<and> empty_df a
       \<and> get_institutional_sentiment f ticker days = Inr b \<and> empty_df b
        \<longrightarrow> fetch_all_sentiment_data w f sentiment_analyzer ticker days = Inr (DataFrame []))"
proof -
  have 1: "calculate_weighted_sentiment df = Inr 0" if "empty_df df" for df
    using that by (simp add: calculate_weighted_sentiment_def)
  have 2: "\<exists>c. combine_frames a b = Inr c \<and> empty_df c \<and> calculate_weighted_sentiment c = Inr 0"
    if "empty_df a \<and> empty_df b"
    using that 1 [OF empty_DataFrame_Nil] by (simp add: combine_frames_def empty_DataFrame_Nil)
  have 3: "fetch_all_sentiment_data w f sentiment_analyzer ticker days = Inr (DataFrame [])"
    if "fetch_wsb_posts w ticker days = Inr a \<and> empty_df a
       \<and> get_institutional_sentiment f ticker days = Inr b \<and> empty_df b"
    using that all_sources_empty by blast
  from 1 2 3 show ?thesis by blast
qed

theorem empty_index_witness:
  "empty_df (DataFrame [])
   \<and> calculate_weighted_sentiment (DataFrame []) = Inr 0
   \<and> combine_frames (DataFrame []) (DataFrame []) = Inr (DataFrame [])
   \<and> fetch_wsb_posts no_client ''AAPL'' 7 = Inr (DataFrame [])
   \<and> get_institutional_sentiment offline_fetcher ''AAPL'' 7 = Inr (DataFrame [])
   \<and> fetch_all_sentiment_data no_client offline_fetcher (analyze_text offline_fetcher) ''AAPL'' 7
       = Inr (DataFrame [])"
proof -
  have e: "empty_df (DataFrame [])" by (rule empty_DataFrame_Nil)
  have w: "fetch_wsb_posts no_client ''AAPL'' 7 = Inr (DataFrame [])"
    by (simp add: fetch_wsb_posts_def no_client_def)
  have c: "combine_frames (DataFrame []) (DataFrame []) = Inr (DataFrame [])"
    by (simp add: combine_frames_def e)
  note t = empty_index [where df = "DataFrame []" and a = "DataFrame []" and b = "DataFrame []"
      and w = no_client and f = offline_fetcher and ticker = "''AAPL''" and days = 7
      and sentiment_analyzer = "analyze_text offline_fetcher"]
  from t e have 1: "calculate_weighted_sentiment (DataFrame []) = Inr 0" by blast
  from t e w get_institutional_offline
  have 3: "fetch_all_sentiment_data no_client offline_fetcher (analyze_text offline_fetcher)
             ''AAPL'' 7 = Inr (DataFrame [])"
    by blast
  from e 1 c w get_institutional_offline 3 show ?thesis by blast
qed

subsection \<open>C9: the merge\<close>

text \<open>
  Claim C9. The merge of two non-empty frames that both have a source column has as many
  rows as the two together, first those of the social frame, then those of the news
  frame; its columns are the columns common to both; every row keeps its cells in the
  common columns, its source tag among them, and loses the others. The merge of two
  empty frames is the empty frame.
\<close>

theorem merge_keeps_records:
  "(\<not> empty_df a \<and> \<not> empty_df b \<and> ''source'' \<in> set (columns a) \<and> ''source'' \<in> set (columns b)
      \<longrightarrow> (\<exists>df. combine_frames a b = Inr df
             \<and> length (rows df) = length (rows a) + length (rows b)
             \<and> set (columns df) = set (columns a) \<inter> set (columns b)
             \<and> (\<forall>i<length (rows a). \<forall>c.
                   map_of (rows df ! i) c
                     = (if c \<in> set (columns a) \<and> c \<in> set (columns b) then map_of (rows a ! i) c
                        else None))
             \<and> (\<forall>j<length (rows b). \<forall>c.
                   map_of (rows df ! (length (rows a) + j)) c
                     = (if c \<in> set (columns a) \<and> c \<in> set (columns b) then map_of (rows b ! j) c
                        else None))
             \<and> (\<forall>i<length (rows a). map_of (rows df ! i) ''source'' = map_of (rows a ! i) ''source'')
             \<and> (\<forall>j<length (rows b). map_of (rows df ! (length (rows a) + j)) ''source''
                                        = map_of (rows b ! j) ''source'')))
   \<and> (empty_df a \<and> empty_df b \<longrightarrow> combine_frames a b = Inr (DataFrame []))"
proof -
  let ?S = "set (columns a) \<inter> set (columns b)"
  let ?df = "\<lparr>columns = unique (filter (\<lambda>c. c \<in> set (columns b)) (columns a)),
          rows = map (filter (\<lambda>kv. fst kv \<in> set (columns a) \<and> fst kv \<in> set (columns b))) (rows a)
                 @ map (filter (\<lambda>kv. fst kv \<in> set (columns a) \<and> fst kv \<in> set (columns b))) (rows b)\<rparr>"
  have 2: "combine_frames a b = Inr (DataFrame [])" if "empty_df a \<and> empty_df b"
    using that by (simp add: combine_frames_def)
  have 1: "\<exists>df. combine_frames a b = Inr df
             \<and> length (rows df) = length (rows a) + length (rows b)
             \<and> set (columns df) = ?S
             \<and> (\<forall>i<length (rows a). \<forall>c.
                   map_of (rows df ! i) c = (if c \<in> set (columns a) \<and> c \<in> set (columns b) then map_of (rows a ! i) c else None))
             \<and> (\<forall>j<length (rows b). \<forall>c.
                   map_of (rows df ! (length (rows a) + j)) c
                     = (if c \<in> set (columns a) \<and> c \<in> set (columns b) then map_of (rows b ! j) c else None))
             \<and> (\<forall>i<length (rows a). map_of (rows df ! i) ''source'' = map_of (rows a ! i) ''source'')
             \<and> (\<forall>j<length (rows b). map_of (rows df ! (length (rows a) + j)) ''source''
                                        = map_of (rows b ! j) ''source'')"
    if h: "\<not> empty_df a \<and> \<not> empty_df b \<and> ''source'' \<in> set (columns a)
           \<and> ''source'' \<in> set (columns b)"
  proof -
    from h have c: "combine_frames a b = Inr ?df" by (simp add: combine_nonempty)
    have l: "length (rows ?df) = length (rows a) + length (rows b)" by simp
    have s: "set (columns ?df) = ?S" by (auto simp: unique_def)
    have ra: "map_of (rows ?df ! i) c = (if c \<in> set (columns a) \<and> c \<in> set (columns b) then map_of (rows a ! i) c else None)"
      if "i < length (rows a)" for i c
      using that by (simp add: nth_append map_of_filter_common)
    have rb: "map_of (rows ?df ! (length (rows a) + j)) c
                = (if c \<in> set (columns a) \<and> c \<in> set (columns b) then map_of (rows b ! j) c else None)"
      if "j < length (rows b)" for j c
      using that by (simp add: nth_append map_of_filter_common)
    from h have src: "''source'' \<in> set (columns a) \<and> ''source'' \<in> set (columns b)" by simp
    have sa: "map_of (rows ?df ! i) ''source'' = map_of (rows a ! i) ''source''"
      if "i < length (rows a)" for i
      using ra [OF that, of "''source''"] src by simp
    have sb: "map_of (rows ?df ! (length (rows a) + j)) ''source'' = map_of (rows b ! j) ''source''"
      if "j < length (rows b)" for j
      using rb [OF that, of "''source''"] src by simp
    from c l s ra rb sa sb show ?thesis by blast
  qed
  from 1 2 show ?thesis by blast
qed

theorem merge_keeps_records_witness:
  "\<not> empty_df social_frame \<and> \<not> empty_df press_frame
   \<and> ''source'' \<in> set (columns social_frame) \<and> ''source'' \<in> set (columns press_frame)
   \<and> combine_frames social_frame press_frame = Inr merged_frame
   \<and> length (rows merged_frame) = length (rows social_frame) + length (rows press_frame)
   \<and> map (\<lambda>r. map_of r ''source'') (rows merged_frame)
       = map (\<lambda>r. map_of r ''source'') (rows social_frame)
         @ map (\<lambda>r. map_of r ''source'') (rows press_frame)
   \<and> empty_df (DataFrame [])
   \<and> combine_frames (DataFrame []) (DataFrame []) = Inr (DataFrame [])"
proof -
  have h: "\<not> empty_df social_frame \<and> \<not> empty_df press_frame
     \<and> ''source'' \<in> set (columns social_frame) \<and> ''source'' \<in> set (columns press_frame)"
    by (simp add: empty_df_def social_frame_def press_frame_def)
  have e: "empty_df (DataFrame [])" by (simp add: empty_df_def DataFrame_def)
  from merge_keeps_records [of social_frame press_frame] h combine_example
  have l: "length (rows merged_frame) = length (rows social_frame) + length (rows press_frame)"
    by auto
  have s: "map (\<lambda>r. map_of r ''source'') (rows merged_frame)
       = map (\<lambda>r. map_of r ''source'') (rows social_frame)
         @ map (\<lambda>r. map_of r ''source'') (rows press_frame)"
    by (simp add: merged_frame_def social_frame_def press_frame_def)
  from merge_keeps_records [of "DataFrame []" "DataFrame []"] e
  have "combine_frames (DataFrame []) (DataFrame []) = Inr (DataFrame [])" by blast
  with h e l s combine_example show ?thesis by blast
qed

subsection \<open>C10: Alpha Vantage never contributes\<close>




end
